theory Spec2Isabelle
  imports Complex_Main
begin

section \<open>Network configuration resolver (src/utils/ConfigHelper.ts)\<close>

text \<open>
  Every field of a configuration object is declared \<open>string\<close> in TypeScript, but the static
  table stores \<open>null\<close> in some fields and leaves \<open>oceanTokenAddress\<close> out of the
  \<open>development\<close> entry, where a read yields \<open>undefined\<close>. A field is therefore one of
  three things.
\<close>

datatype js_string = Null | Undefined | Str string

record ConfigHelper =
  network :: string
  url :: js_string
  factoryAddress :: js_string
  oceanTokenAddress :: js_string
  metadataStoreUri :: js_string
  providerUri :: js_string

definition configs :: "ConfigHelper list" where
  "configs =
    [ \<lparr> network = ''development'',
        url = Str ''http://localhost:8545'',
        factoryAddress = Null,
        oceanTokenAddress = Undefined,
        metadataStoreUri = Str ''http://127.0.0.1:5000'',
        providerUri = Str ''http://127.0.0.1:8030'' \<rparr>,
      \<lparr> network = ''pacific'',
        url = Str ''https://pacific.oceanprotocol.com'',
        factoryAddress = Str ''0x1234'',
        oceanTokenAddress = Str ''0x012578f9381e876A9E2a9111Dfd436FF91A451ae'',
        metadataStoreUri = Null,
        providerUri = Null \<rparr>,
      \<lparr> network = ''rinkeby'',
        url = Str ''https://rinkeby.infura.io/v3/YOUR-PROJECT-ID'',
        factoryAddress = Str ''0xcDfEe5D80041224cDCe9AE2334E85B3236385EA3'',
        oceanTokenAddress = Str ''0x8967BCF84170c91B0d24D4302C2376283b0B3a07'',
        metadataStoreUri = Str ''https://aquarius.rinkeby.v3.dev-ocean.com/'',
        providerUri = Str ''https://provider.rinkeby.v3.dev-ocean.com/'' \<rparr>,
      \<lparr> network = ''mainnet'',
        url = Str ''https://mainnet.infura.io/v3/YOUR-PROJECT-ID'',
        factoryAddress = Str ''0x1234'',
        oceanTokenAddress = Str ''0x985dd3d42de1e256d09e1c10f112bccb8015ad41'',
        metadataStoreUri = Null,
        providerUri = Null \<rparr> ]"

text \<open>
  \<open>getConfig\<close> first fills a fresh object with the unknown values, then overwrites every
  field from the first table entry whose name is equal to the argument, if there is one
  (\<open>configs.find\<close>; an object is truthy).
\<close>

definition getConfig :: "string \<Rightarrow> ConfigHelper" where
  "getConfig nw =
    (let confighelp = \<lparr> network = nw, url = Null, factoryAddress = Null,
                         oceanTokenAddress = Null, metadataStoreUri = Null,
                         providerUri = Null \<rparr>
     in case find (\<lambda>c. network c = nw) configs of
          None \<Rightarrow> confighelp
        | Some knownconfig \<Rightarrow>
            confighelp \<lparr> factoryAddress := factoryAddress knownconfig,
                         oceanTokenAddress := oceanTokenAddress knownconfig,
                         url := url knownconfig,
                         network := network knownconfig,
                         metadataStoreUri := metadataStoreUri knownconfig,
                         providerUri := providerUri knownconfig \<rparr>)"

section \<open>Pool client (src/pools/balancer/Pool.ts)\<close>

subsection \<open>Values, errors, requests\<close>

text \<open>
  Amounts cross the client as strings that hold numbers (\<open>'1.5'\<close>, \<open>'1500000'\<close>). The model
  carries the number such a string denotes, a rational; JavaScript's floating point
  arithmetic on them (\<open>getSpotPrice\<close>) is idealised to exact arithmetic. Where a value can
  also be \<open>null\<close> or \<open>undefined\<close> it is an \<open>option\<close>, with \<open>None\<close> for both.
\<close>

type_synonym address = string

datatype js_error = Error string | TypeError string

fun message :: "js_error \<Rightarrow> string" where
  "message (Error m) = m"
| "message (TypeError m) = m"

datatype abi = PoolTemplate_abi | defaultErc20Abi_abi | Custom_abi string

datatype contract = Contract abi address

datatype arg = Addr address | Num "rat option" | List "arg list"

datatype receipt = TransactionReceipt string

record send_options =
  from_address :: address
  gas :: nat
  gasPrice :: string

text \<open>
  What leaves the client: a view call, a gas estimation, a submitted transaction (each
  with the contract binding, the contract method and its arguments) and the gas price query
  of \<open>getFairGasPrice\<close>. The option \<open>from\<close> of a transaction is \<open>from_address\<close> above.
\<close>

datatype action =
    Call contract string "arg list"
  | EstimateGas contract string "arg list" address
  | Send contract string "arg list" send_options
  | GasPrice

text \<open>
  The injected chain connection (\<open>web3\<close>, with the contracts behind it) is a parameter:
  for every request it says whether the promise resolves (\<open>Inr\<close>) or rejects (\<open>Inl\<close>),
  and it answers a request the same way each time the request is made. \<open>toWei\<close> and
  \<open>fromWei\<close> are the connection's unit conversion helpers; they can throw.
\<close>

record chain =
  call_uint :: "contract \<Rightarrow> string \<Rightarrow> arg list \<Rightarrow> js_error + rat"
  call_decimals :: "contract \<Rightarrow> js_error + nat"
  call_address :: "contract \<Rightarrow> string \<Rightarrow> js_error + address"
  call_addresses :: "contract \<Rightarrow> string \<Rightarrow> js_error + address list"
  estimateGas :: "contract \<Rightarrow> string \<Rightarrow> arg list \<Rightarrow> address \<Rightarrow> js_error + nat"
  send :: "contract \<Rightarrow> string \<Rightarrow> arg list \<Rightarrow> send_options \<Rightarrow> js_error + receipt"
  getFairGasPrice :: "js_error + string"
  toWei :: "rat \<Rightarrow> js_error + rat"
  fromWei :: "rat option \<Rightarrow> js_error + rat"

subsection \<open>Effects: the error log, the requests made, exceptions\<close>

record client_state =
  logged :: "string list"
  trace :: "action list"

type_synonym 'a io = "client_state \<Rightarrow> (js_error + 'a) \<times> client_state"

definition io_return :: "'a \<Rightarrow> 'a io" where
  "io_return x = (\<lambda>s. (Inr x, s))"

definition io_throw :: "js_error \<Rightarrow> 'a io" where
  "io_throw e = (\<lambda>s. (Inl e, s))"

definition io_lift :: "js_error + 'a \<Rightarrow> 'a io" where
  "io_lift r = (\<lambda>s. (r, s))"

definition io_bind :: "'a io \<Rightarrow> ('a \<Rightarrow> 'b io) \<Rightarrow> 'b io" where
  "io_bind m f = (\<lambda>s. case m s of (Inl e, s') \<Rightarrow> (Inl e, s') | (Inr x, s') \<Rightarrow> f x s')"

text \<open>\<open>try { m } catch (e) { h e }\<close>\<close>

definition io_catch :: "'a io \<Rightarrow> (js_error \<Rightarrow> 'a io) \<Rightarrow> 'a io" where
  "io_catch m h = (\<lambda>s. case m s of (Inl e, s') \<Rightarrow> h e s' | (Inr x, s') \<Rightarrow> (Inr x, s'))"

definition logger_error :: "string \<Rightarrow> unit io" where
  "logger_error msg = (\<lambda>s. (Inr (), s\<lparr>logged := logged s @ [msg]\<rparr>))"

definition request :: "action \<Rightarrow> js_error + 'a \<Rightarrow> 'a io" where
  "request a response = (\<lambda>s. (response, s\<lparr>trace := trace s @ [a]\<rparr>))"

text \<open>
  The handler \<open>catch (e) { LoggerInstance.error(`msg${e.message}`) }\<close>, after which the
  variable assigned in the \<open>try\<close> block still has its initial value \<open>v\<close>.
\<close>

definition catch_log :: "string \<Rightarrow> 'a \<Rightarrow> js_error \<Rightarrow> 'a io" where
  "catch_log msg v e = io_bind (logger_error (msg @ message e)) (\<lambda>_. io_return v)"

definition contract_call_uint :: "chain \<Rightarrow> contract \<Rightarrow> string \<Rightarrow> arg list \<Rightarrow> rat io" where
  "contract_call_uint w c m args = request (Call c m args) (call_uint w c m args)"

definition contract_call_decimals :: "chain \<Rightarrow> contract \<Rightarrow> nat io" where
  "contract_call_decimals w c = request (Call c ''decimals'' []) (call_decimals w c)"

definition contract_call_address :: "chain \<Rightarrow> contract \<Rightarrow> string \<Rightarrow> address io" where
  "contract_call_address w c m = request (Call c m []) (call_address w c m)"

definition contract_call_addresses :: "chain \<Rightarrow> contract \<Rightarrow> string \<Rightarrow> address list io" where
  "contract_call_addresses w c m = request (Call c m []) (call_addresses w c m)"

definition contract_estimateGas ::
  "chain \<Rightarrow> contract \<Rightarrow> string \<Rightarrow> arg list \<Rightarrow> address \<Rightarrow> nat io" where
  "contract_estimateGas w c m args a = request (EstimateGas c m args a) (estimateGas w c m args a)"

definition contract_send ::
  "chain \<Rightarrow> contract \<Rightarrow> string \<Rightarrow> arg list \<Rightarrow> send_options \<Rightarrow> receipt io" where
  "contract_send w c m args opts = request (Send c m args opts) (send w c m args opts)"

definition fairGasPrice :: "chain \<Rightarrow> string io" where
  "fairGasPrice w = request GasPrice (getFairGasPrice w)"

text \<open>\<open>xs[i]\<close> in JavaScript: \<open>undefined\<close> beyond the end of the array.\<close>

definition js_nth :: "'a list \<Rightarrow> nat \<Rightarrow> 'a option" where
  "js_nth xs i = (if i < length xs then Some (xs ! i) else None)"

subsection \<open>Constants and the client object\<close>

definition MaxUint256 :: string where
  "MaxUint256 =
    ''115792089237316195423570985008687907853269984665640564039457584007913129639934''"

text \<open>
  The number that a string of decimal digits denotes; a swap passes the string
  \<open>MaxUint256\<close> to the contract, which the model carries as this number.
\<close>

definition digit_value :: "char \<Rightarrow> nat" where
  "digit_value c = of_char c - 48"

definition numeric_value :: "string \<Rightarrow> rat" where
  "numeric_value s = of_nat (foldl (\<lambda>n c. 10 * n + digit_value c) 0 s)"

definition GASLIMIT_DEFAULT :: nat where
  "GASLIMIT_DEFAULT = 1000000"

record Pool =
  poolAbi :: abi
  web3 :: chain

subsection \<open>Unit conversion helpers\<close>

text \<open>
  \<open>amountToUnits\<close> and \<open>unitsToAmount\<close> are imported from \<open>../../utils\<close>, which is not
  among the sources; the four definitions of this subsection follow the spec instead. The
  spec: human-readable decimal amounts are converted to base units, and raw base-unit
  results back to human-readable amounts, using the relevant token's on-chain decimal
  count, queried per call and defaulting to 18 on failure, silently.
\<close>

text \<open>
  Modelled from the spec: the decimal count that the missing helpers \<open>amountToUnits\<close> and
  \<open>unitsToAmount\<close> look up, one \<open>decimals\<close> call per conversion, 18 when the call fails
  (nothing is logged) or when there is no token to ask.
\<close>

definition tokenDecimals :: "chain \<Rightarrow> address option \<Rightarrow> nat io" where
  "tokenDecimals w token =
    (case token of
       None \<Rightarrow> io_return 18
     | Some t \<Rightarrow>
         io_catch (contract_call_decimals w (Contract defaultErc20Abi_abi t))
                  (\<lambda>e. io_return 18))"

text \<open>
  Modelled from the spec: the base-unit image that the missing helper \<open>amountToUnits\<close>
  computes, the amount times \<open>10 ^ d\<close> for the decimal count \<open>d\<close>. The spec asks that
  whole images be exact and does not say what happens below one base unit; the model drops
  the fraction.
\<close>

definition base_units :: "nat \<Rightarrow> rat \<Rightarrow> rat" where
  "base_units d a = of_int \<lfloor>a * 10 ^ d\<rfloor>"

text \<open>
  Modelled from the spec: the missing helper \<open>amountToUnits(web3, token, amount)\<close>. The
  spec does not say what an \<open>undefined\<close> amount converts to; the model returns no number.
\<close>

definition amountToUnits :: "chain \<Rightarrow> address option \<Rightarrow> rat option \<Rightarrow> rat option io" where
  "amountToUnits w token amount =
    io_bind (tokenDecimals w token) (\<lambda>d.
    io_return (map_option (base_units d) amount))"

text \<open>
  Modelled from the spec: the missing helper \<open>unitsToAmount(web3, token, amount)\<close>, the
  base-unit number divided by \<open>10 ^ d\<close>.
\<close>

definition unitsToAmount :: "chain \<Rightarrow> address option \<Rightarrow> rat \<Rightarrow> rat io" where
  "unitsToAmount w token units =
    io_bind (tokenDecimals w token) (\<lambda>d.
    io_return (units / 10 ^ d))"

subsection \<open>Read methods\<close>

text \<open>
  Building a contract binding (\<open>new this.web3.eth.Contract\<close>, \<open>setContractDefaults\<close>) makes
  no request and is taken not to fail. Each method below follows the statements of its
  source: what is inside the \<open>try\<close> block is the first argument of \<open>io_catch\<close>, what
  follows the block comes after it.
\<close>

definition sharesBalance :: "Pool \<Rightarrow> address \<Rightarrow> address \<Rightarrow> rat option io" where
  "sharesBalance this account poolAddress =
    io_catch
      (let token = Contract (poolAbi this) poolAddress in
       io_bind (contract_call_uint (web3 this) token ''balanceOf'' [Addr account]) (\<lambda>balance.
       io_bind (io_lift (fromWei (web3 this) (Some balance))) (\<lambda>result.
       io_return (Some result))))
      (catch_log ''ERROR: Failed to get shares of pool : '' None)"

definition getNumTokens :: "Pool \<Rightarrow> address \<Rightarrow> rat option io" where
  "getNumTokens this poolAddress =
    (let pool = Contract (poolAbi this) poolAddress in
     io_catch
       (io_bind (contract_call_uint (web3 this) pool ''getNumTokens'' []) (\<lambda>result.
        io_return (Some result)))
       (catch_log ''ERROR: Failed to get number of tokens: '' None))"

definition getFinalTokens :: "Pool \<Rightarrow> address \<Rightarrow> address list option io" where
  "getFinalTokens this poolAddress =
    (let pool = Contract (poolAbi this) poolAddress in
     io_catch
       (io_bind (contract_call_addresses (web3 this) pool ''getFinalTokens'') (\<lambda>result.
        io_return (Some result)))
       (catch_log ''ERROR: Failed to get the final tokens composing this pool '' None))"

text \<open>
  \<open>getMarketFee\<close> converts after the \<open>try\<close> block: \<open>fromWei\<close> receives \<open>null\<close> when the
  call has failed, and the value returned is the string that \<open>toString\<close> gives.
\<close>

definition getMarketFee :: "Pool \<Rightarrow> address \<Rightarrow> rat io" where
  "getMarketFee this poolAddress =
    (let pool = Contract (poolAbi this) poolAddress in
     io_bind
       (io_catch
          (io_bind (contract_call_uint (web3 this) pool ''getMarketFee'' []) (\<lambda>result.
           io_return (Some result)))
          (catch_log ''ERROR: Failed to get getMarketFee: '' None)) (\<lambda>result.
     io_lift (fromWei (web3 this) result)))"

definition getMarketFeeCollector :: "Pool \<Rightarrow> address \<Rightarrow> address option io" where
  "getMarketFeeCollector this poolAddress =
    (let pool = Contract (poolAbi this) poolAddress in
     io_catch
       (io_bind (contract_call_address (web3 this) pool ''_publishMarketCollector'') (\<lambda>result.
        io_return (Some result)))
       (catch_log ''ERROR: Failed to get marketFeeCollector address: '' None))"

text \<open>
  \<open>getReserve\<close> ends with \<open>return amount.toString()\<close>, outside the \<open>try\<close> block: on
  \<open>null\<close> the property access throws a \<open>TypeError\<close>.
\<close>

definition getReserve :: "Pool \<Rightarrow> address \<Rightarrow> address \<Rightarrow> rat io" where
  "getReserve this poolAddress token =
    io_bind
      (io_catch
         (let pool = Contract (poolAbi this) poolAddress in
          io_bind (contract_call_uint (web3 this) pool ''getBalance'' [Addr token]) (\<lambda>result.
          io_bind (unitsToAmount (web3 this) (Some token) result) (\<lambda>amount.
          io_return (Some amount))))
         (catch_log ''ERROR: Failed to get how many tokens       are in the pool: '' None))
      (\<lambda>amount.
         case amount of
           None \<Rightarrow> io_throw (TypeError ''Cannot read properties of null (reading toString)'')
         | Some a \<Rightarrow> io_return a)"

definition getSwapFee :: "Pool \<Rightarrow> address \<Rightarrow> rat option io" where
  "getSwapFee this poolAddress =
    (let pool = Contract (poolAbi this) poolAddress in
     io_catch
       (io_bind (contract_call_uint (web3 this) pool ''getSwapFee'' []) (\<lambda>result.
        io_bind (io_lift (fromWei (web3 this) (Some result))) (\<lambda>fee.
        io_return (Some fee))))
       (catch_log ''ERROR: Failed to get pool fee: '' None))"

definition getMarketFees :: "Pool \<Rightarrow> address \<Rightarrow> address \<Rightarrow> rat option io" where
  "getMarketFees this poolAddress token =
    (let pool = Contract (poolAbi this) poolAddress in
     io_catch
       (io_bind (contract_call_uint (web3 this) pool ''publishMarketFees'' [Addr token]) (\<lambda>result.
        io_bind (unitsToAmount (web3 this) (Some token) result) (\<lambda>weight.
        io_return (Some weight))))
       (catch_log ''ERROR: Failed to get market fees for a token: '' None))"

subsection \<open>Spot price\<close>

text \<open>
  A decimal count in \<open>getSpotPrice\<close> is one of two JavaScript values. The variables start
  as the number 18. What \<open>decimals().call()\<close> resolves to is a string: the contract
  binding of web3 1.x decodes every unsigned integer that a call returns into its decimal
  string. \<open>DecimalString n\<close> stands for the decimal string of \<open>n\<close>, which is \<open>digits n\<close>.
\<close>

datatype js_count = Number nat | DecimalString nat

fun count_value :: "js_count \<Rightarrow> nat" where
  "count_value (Number n) = n"
| "count_value (DecimalString n) = n"

definition digit_char :: "nat \<Rightarrow> char" where
  "digit_char d = ''0123456789'' ! d"

function digits :: "nat \<Rightarrow> string" where
  "digits n = (if n < 10 then [digit_char n] else digits (n div 10) @ [digit_char (n mod 10)])"
  by pat_completeness auto
termination
  by (relation "measure id") auto

declare digits.simps [simp del]

text \<open>
  \<open>a > b\<close> in JavaScript: two strings are compared as strings, code unit by code unit, a
  proper prefix being less; in every other case both sides are converted to numbers.
  \<open>a - b\<close> always converts to numbers, and the difference can be negative.
\<close>

fun string_less :: "string \<Rightarrow> string \<Rightarrow> bool" where
  "string_less [] [] = False"
| "string_less [] (y # ys) = True"
| "string_less (x # xs) [] = False"
| "string_less (x # xs) (y # ys) =
     ((of_char x :: nat) < of_char y \<or> (x = y \<and> string_less xs ys))"

fun js_gt :: "js_count \<Rightarrow> js_count \<Rightarrow> bool" where
  "js_gt (DecimalString m) (DecimalString n) = string_less (digits n) (digits m)"
| "js_gt a b = (count_value b < count_value a)"

definition js_minus :: "js_count \<Rightarrow> js_count \<Rightarrow> int" where
  "js_minus a b = int (count_value a) - int (count_value b)"

text \<open>
  In arithmetic \<open>null\<close> is the number 0. The block of \<open>getSpotPrice\<close> after the three
  \<open>try\<close> statements is a function of the two decimal counts and the price read (\<open>None\<close>
  when the call has failed). \<open>10 ** k\<close> is \<open>power_int 10 k\<close>. The code computes with
  double-precision numbers; the model computes the same operations exactly, so that a
  result of the code can differ from the model's in its last digits.
\<close>

definition to_number :: "rat option \<Rightarrow> rat" where
  "to_number v = (case v of None \<Rightarrow> 0 | Some x \<Rightarrow> x)"

definition getSpotPrice_rescale :: "js_count \<Rightarrow> js_count \<Rightarrow> rat option \<Rightarrow> rat" where
  "getSpotPrice_rescale decimalsTokenIn decimalsTokenOut price =
    (if js_gt decimalsTokenIn decimalsTokenOut then
       let decimalsDiff = js_minus decimalsTokenIn decimalsTokenOut;
           price1 = to_number price / power_int 10 decimalsDiff
       in price1 / power_int 10 (int (count_value decimalsTokenOut))
     else
       let decimalsDiff = js_minus decimalsTokenOut decimalsTokenIn;
           price1 = to_number price * power_int 10 (2 * decimalsDiff)
       in price1 / power_int 10 (int (count_value decimalsTokenOut)))"

definition getSpotPrice :: "Pool \<Rightarrow> address \<Rightarrow> address \<Rightarrow> address \<Rightarrow> rat \<Rightarrow> rat io" where
  "getSpotPrice this poolAddress tokenIn tokenOut swapMarketFee =
    (let pool = Contract (poolAbi this) poolAddress;
         tokenInContract = Contract defaultErc20Abi_abi tokenIn;
         tokenOutContract = Contract defaultErc20Abi_abi tokenOut
     in
     io_bind
       (io_catch
          (io_bind (contract_call_decimals (web3 this) tokenInContract) (\<lambda>n.
           io_return (DecimalString n)))
          (catch_log ''ERROR: FAILED TO CALL DECIMALS(), USING 18 '' (Number 18)))
       (\<lambda>decimalsTokenIn.
     io_bind
       (io_catch
          (io_bind (contract_call_decimals (web3 this) tokenOutContract) (\<lambda>n.
           io_return (DecimalString n)))
          (catch_log ''ERROR: FAILED TO CALL DECIMALS(), USING 18 '' (Number 18)))
       (\<lambda>decimalsTokenOut.
     io_bind
       (io_catch
          (io_bind (io_lift (toWei (web3 this) swapMarketFee)) (\<lambda>fee.
           io_bind (contract_call_uint (web3 this) pool ''getSpotPrice''
                      [Addr tokenIn, Addr tokenOut, Num (Some fee)]) (\<lambda>price.
           io_return (Some price))))
          (\<lambda>e. io_bind
                 (logger_error
                    ''ERROR: Failed to get spot price of swapping tokenIn to tokenOut'') (\<lambda>_.
               io_return None))) (\<lambda>price.
     io_return (getSpotPrice_rescale decimalsTokenIn decimalsTokenOut price)))))"

subsection \<open>Gas estimation\<close>

text \<open>
  Every estimator awaits \<open>estimateGas\<close> inside a \<open>try\<close> block whose handler assigns
  \<open>GASLIMIT_DEFAULT\<close>. The value that the callback passed to \<open>estimateGas\<close> returns is not
  used by the promise that is awaited. \<open>estSetSwapFee\<close> binds the pool address with the
  ERC20 template's interface; the others use the pool's.
\<close>

definition estSetSwapFee ::
  "Pool \<Rightarrow> address \<Rightarrow> address \<Rightarrow> rat \<Rightarrow> contract option \<Rightarrow> nat io" where
  "estSetSwapFee this account poolAddress fee contractInstance =
    (let poolContract =
           (case contractInstance of
              Some c \<Rightarrow> c
            | None \<Rightarrow> Contract defaultErc20Abi_abi poolAddress);
         gasLimitDefault = GASLIMIT_DEFAULT
     in io_catch
          (contract_estimateGas (web3 this) poolContract ''setSwapFee'' [Num (Some fee)] account)
          (\<lambda>e. io_return gasLimitDefault))"

definition estCollectOPC ::
  "Pool \<Rightarrow> address \<Rightarrow> address \<Rightarrow> contract option \<Rightarrow> nat io" where
  "estCollectOPC this account poolAddress contractInstance =
    (let poolContract =
           (case contractInstance of
              Some c \<Rightarrow> c
            | None \<Rightarrow> Contract (poolAbi this) poolAddress);
         gasLimitDefault = GASLIMIT_DEFAULT
     in io_catch
          (contract_estimateGas (web3 this) poolContract ''collectOPC'' [] account)
          (\<lambda>e. io_return gasLimitDefault))"

definition estCollectMarketFee ::
  "Pool \<Rightarrow> address \<Rightarrow> address \<Rightarrow> contract option \<Rightarrow> nat io" where
  "estCollectMarketFee this account poolAddress contractInstance =
    (let poolContract =
           (case contractInstance of
              Some c \<Rightarrow> c
            | None \<Rightarrow> Contract (poolAbi this) poolAddress);
         gasLimitDefault = GASLIMIT_DEFAULT
     in io_catch
          (contract_estimateGas (web3 this) poolContract ''collectMarketFee'' [] account)
          (\<lambda>e. io_return gasLimitDefault))"

definition estUpdatePublishMarketFee ::
  "Pool \<Rightarrow> address \<Rightarrow> address \<Rightarrow> address \<Rightarrow> rat \<Rightarrow> contract option \<Rightarrow> nat io" where
  "estUpdatePublishMarketFee this account poolAddress newPublishMarketAddress
       newPublishMarketSwapFee contractInstance =
    (let poolContract =
           (case contractInstance of
              Some c \<Rightarrow> c
            | None \<Rightarrow> Contract (poolAbi this) poolAddress);
         gasLimitDefault = GASLIMIT_DEFAULT
     in io_catch
          (contract_estimateGas (web3 this) poolContract ''updatePublishMarketFee''
             [Addr newPublishMarketAddress, Num (Some newPublishMarketSwapFee)]
             account)
          (\<lambda>e. io_return gasLimitDefault))"

definition estJoinPool ::
  "Pool \<Rightarrow> address \<Rightarrow> address \<Rightarrow> rat \<Rightarrow> rat option list \<Rightarrow> contract option \<Rightarrow> nat io" where
  "estJoinPool this account poolAddress poolAmountOut maxAmountsIn contractInstance =
    (let poolContract =
           (case contractInstance of
              Some c \<Rightarrow> c
            | None \<Rightarrow> Contract (poolAbi this) poolAddress);
         gasLimitDefault = GASLIMIT_DEFAULT
     in io_catch
          (contract_estimateGas (web3 this) poolContract ''joinPool''
             [Num (Some poolAmountOut), List (map Num maxAmountsIn)]
             account)
          (\<lambda>e. io_return gasLimitDefault))"

definition estExitPool ::
  "Pool \<Rightarrow> address \<Rightarrow> address \<Rightarrow> rat \<Rightarrow> rat option list \<Rightarrow> contract option \<Rightarrow> nat io" where
  "estExitPool this account poolAddress poolAmountIn minAmountsOut contractInstance =
    (let poolContract =
           (case contractInstance of
              Some c \<Rightarrow> c
            | None \<Rightarrow> Contract (poolAbi this) poolAddress);
         gasLimitDefault = GASLIMIT_DEFAULT
     in io_catch
          (contract_estimateGas (web3 this) poolContract ''exitPool''
             [Num (Some poolAmountIn), List (map Num minAmountsOut)]
             account)
          (\<lambda>e. io_return gasLimitDefault))"

definition estJoinswapExternAmountIn ::
  "Pool \<Rightarrow> address \<Rightarrow> address \<Rightarrow> rat option \<Rightarrow> rat \<Rightarrow> contract option \<Rightarrow> nat io" where
  "estJoinswapExternAmountIn this account poolAddress tokenAmountIn minPoolAmountOut
       contractInstance =
    (let poolContract =
           (case contractInstance of
              Some c \<Rightarrow> c
            | None \<Rightarrow> Contract (poolAbi this) poolAddress);
         gasLimitDefault = GASLIMIT_DEFAULT
     in io_catch
          (contract_estimateGas (web3 this) poolContract ''joinswapExternAmountIn''
             [Num tokenAmountIn, Num (Some minPoolAmountOut)]
             account)
          (\<lambda>e. io_return gasLimitDefault))"

definition estExitswapPoolAmountIn ::
  "Pool \<Rightarrow> address \<Rightarrow> address \<Rightarrow> rat \<Rightarrow> rat option \<Rightarrow> contract option \<Rightarrow> nat io" where
  "estExitswapPoolAmountIn this account poolAddress poolAmountIn minTokenAmountOut
       contractInstance =
    (let poolContract =
           (case contractInstance of
              Some c \<Rightarrow> c
            | None \<Rightarrow> Contract (poolAbi this) poolAddress);
         gasLimitDefault = GASLIMIT_DEFAULT
     in io_catch
          (contract_estimateGas (web3 this) poolContract ''exitswapPoolAmountIn''
             [Num (Some poolAmountIn), Num minTokenAmountOut]
             account)
          (\<lambda>e. io_return gasLimitDefault))"

text \<open>
  The two swap estimators convert the max-price bound before the \<open>try\<close> block (an unset,
  that is falsy, \<open>maxPrice\<close> gives \<open>MaxUint256\<close>) and the market fee inside it.
\<close>

record TokenInOutMarket =
  tokenIn :: address
  tokenOut :: address
  marketFeeAddress :: address

record AmountsInMaxFee =
  tokenAmountIn :: "rat option"
  minAmountOut :: "rat option"
  swapMarketFee :: rat
  maxPrice :: "rat option"

definition estSwapExactAmountIn ::
  "Pool \<Rightarrow> address \<Rightarrow> address \<Rightarrow> TokenInOutMarket \<Rightarrow> AmountsInMaxFee \<Rightarrow> contract option \<Rightarrow> nat io"
  where
  "estSwapExactAmountIn this account poolAddress tokenInOutMarket amountsInOutMaxFee
       contractInstance =
    (let poolContract =
           (case contractInstance of
              Some c \<Rightarrow> c
            | None \<Rightarrow> Contract (poolAbi this) poolAddress)
     in
     io_bind
       (case maxPrice amountsInOutMaxFee of
          Some p \<Rightarrow> io_lift (toWei (web3 this) p)
        | None \<Rightarrow> io_return (numeric_value MaxUint256)) (\<lambda>maxPrice'.
     let gasLimitDefault = GASLIMIT_DEFAULT in
     io_catch
       (io_bind (io_lift (toWei (web3 this) (swapMarketFee amountsInOutMaxFee))) (\<lambda>fee.
        contract_estimateGas (web3 this) poolContract ''swapExactAmountIn''
          [List [Addr (tokenIn tokenInOutMarket), Addr (tokenOut tokenInOutMarket),
                 Addr (marketFeeAddress tokenInOutMarket)],
           List [Num (tokenAmountIn amountsInOutMaxFee), Num (minAmountOut amountsInOutMaxFee),
                 Num (Some maxPrice'), Num (Some fee)]]
          account))
       (\<lambda>e. io_return gasLimitDefault)))"

subsection \<open>Privileged fee operations\<close>

text \<open>
  Both methods compare the collector read from the chain (\<open>null\<close> when the read has
  failed) with the caller by \<open>!==\<close> and throw before anything else is built.
\<close>

definition collectMarketFee :: "Pool \<Rightarrow> address \<Rightarrow> address \<Rightarrow> receipt option io" where
  "collectMarketFee this address poolAddress =
    io_bind (getMarketFeeCollector this poolAddress) (\<lambda>collector.
    if collector \<noteq> Some address then io_throw (Error ''Caller is not MarketFeeCollector'')
    else
      let pool = Contract (poolAbi this) poolAddress in
      io_bind (estCollectMarketFee this address poolAddress None) (\<lambda>estGas.
      io_catch
        (io_bind (fairGasPrice (web3 this)) (\<lambda>price.
         io_bind (contract_send (web3 this) pool ''collectMarketFee'' []
                    \<lparr> from_address = address, gas = estGas + 1, gasPrice = price \<rparr>) (\<lambda>result.
         io_return (Some result))))
        (catch_log ''ERROR: Failed to swap exact amount in : '' None)))"

definition updatePublishMarketFee ::
  "Pool \<Rightarrow> address \<Rightarrow> address \<Rightarrow> address \<Rightarrow> rat \<Rightarrow> receipt option io" where
  "updatePublishMarketFee this address poolAddress newPublishMarketAddress
       newPublishMarketSwapFee =
    io_bind (getMarketFeeCollector this poolAddress) (\<lambda>collector.
    if collector \<noteq> Some address then io_throw (Error ''Caller is not MarketFeeCollector'')
    else
      let pool = Contract (poolAbi this) poolAddress in
      io_bind (io_lift (toWei (web3 this) newPublishMarketSwapFee)) (\<lambda>wei.
      io_bind (estUpdatePublishMarketFee this address poolAddress newPublishMarketAddress wei
                 None) (\<lambda>estGas.
      io_catch
        (io_bind (io_lift (toWei (web3 this) newPublishMarketSwapFee)) (\<lambda>wei'.
         io_bind (fairGasPrice (web3 this)) (\<lambda>price.
         io_bind (contract_send (web3 this) pool ''updatePublishMarketFee''
                    [Addr newPublishMarketAddress, Num (Some wei')]
                    \<lparr> from_address = address, gas = estGas + 1, gasPrice = price \<rparr>) (\<lambda>result.
         io_return (Some result)))))
        (catch_log ''ERROR: Failed to updatePublishMarketFee : '' None))))"

subsection \<open>Swaps\<close>

text \<open>
  \<open>swapExactAmountIn\<close> overwrites \<open>tokenAmountIn\<close> and \<open>minAmountOut\<close> of the object it
  was given with their base-unit images, hands that object to the estimator and converts
  the max-price bound a second time for the transaction.
\<close>

definition swapExactAmountIn ::
  "Pool \<Rightarrow> address \<Rightarrow> address \<Rightarrow> TokenInOutMarket \<Rightarrow> AmountsInMaxFee \<Rightarrow> receipt option io"
  where
  "swapExactAmountIn this address poolAddress tokenInOutMarket amountsInOutMaxFee =
    (let pool = Contract (poolAbi this) poolAddress in
     io_bind (amountToUnits (web3 this) (Some (tokenIn tokenInOutMarket))
                (tokenAmountIn amountsInOutMaxFee)) (\<lambda>unitsIn.
     let amountsInOutMaxFee = amountsInOutMaxFee \<lparr> tokenAmountIn := unitsIn \<rparr> in
     io_bind (amountToUnits (web3 this) (Some (tokenOut tokenInOutMarket))
                (minAmountOut amountsInOutMaxFee)) (\<lambda>unitsOut.
     let amountsInOutMaxFee = amountsInOutMaxFee \<lparr> minAmountOut := unitsOut \<rparr> in
     io_bind (estSwapExactAmountIn this address poolAddress tokenInOutMarket amountsInOutMaxFee
                None) (\<lambda>estGas.
     io_bind
       (case maxPrice amountsInOutMaxFee of
          Some p \<Rightarrow> io_lift (toWei (web3 this) p)
        | None \<Rightarrow> io_return (numeric_value MaxUint256)) (\<lambda>maxPrice'.
     io_catch
       (io_bind (io_lift (toWei (web3 this) (swapMarketFee amountsInOutMaxFee))) (\<lambda>fee.
        io_bind (fairGasPrice (web3 this)) (\<lambda>price.
        io_bind (contract_send (web3 this) pool ''swapExactAmountIn''
                   [List [Addr (tokenIn tokenInOutMarket), Addr (tokenOut tokenInOutMarket),
                          Addr (marketFeeAddress tokenInOutMarket)],
                    List [Num (tokenAmountIn amountsInOutMaxFee),
                          Num (minAmountOut amountsInOutMaxFee),
                          Num (Some maxPrice'), Num (Some fee)]]
                   \<lparr> from_address = address, gas = estGas + 1, gasPrice = price \<rparr>) (\<lambda>result.
        io_return (Some result)))))
       (catch_log ''ERROR: Failed to swap exact amount in : '' None))))))"

record AmountsOutMaxFee =
  maxAmountIn :: "rat option"
  tokenAmountOut :: "rat option"
  swapMarketFeeOut :: rat
  maxPriceOut :: "rat option"

text \<open>
  The last two fields of \<open>AmountsOutMaxFee\<close> are \<open>swapMarketFee\<close> and \<open>maxPrice\<close> in the
  source; they carry a suffix here to keep them apart from those of \<open>AmountsInMaxFee\<close>.
\<close>

definition estSwapExactAmountOut ::
  "Pool \<Rightarrow> address \<Rightarrow> address \<Rightarrow> TokenInOutMarket \<Rightarrow> AmountsOutMaxFee \<Rightarrow> contract option \<Rightarrow> nat io"
  where
  "estSwapExactAmountOut this account poolAddress tokenInOutMarket amountsInOutMaxFee
       contractInstance =
    (let poolContract =
           (case contractInstance of
              Some c \<Rightarrow> c
            | None \<Rightarrow> Contract (poolAbi this) poolAddress);
         gasLimitDefault = GASLIMIT_DEFAULT
     in
     io_bind
       (case maxPriceOut amountsInOutMaxFee of
          Some p \<Rightarrow> io_lift (toWei (web3 this) p)
        | None \<Rightarrow> io_return (numeric_value MaxUint256)) (\<lambda>maxPrice'.
     io_catch
       (io_bind (io_lift (toWei (web3 this) (swapMarketFeeOut amountsInOutMaxFee))) (\<lambda>fee.
        contract_estimateGas (web3 this) poolContract ''swapExactAmountOut''
          [List [Addr (tokenIn tokenInOutMarket), Addr (tokenOut tokenInOutMarket),
                 Addr (marketFeeAddress tokenInOutMarket)],
           List [Num (maxAmountIn amountsInOutMaxFee), Num (tokenAmountOut amountsInOutMaxFee),
                 Num (Some maxPrice'), Num (Some fee)]]
          account))
       (\<lambda>e. io_return gasLimitDefault)))"

definition swapExactAmountOut ::
  "Pool \<Rightarrow> address \<Rightarrow> address \<Rightarrow> TokenInOutMarket \<Rightarrow> AmountsOutMaxFee \<Rightarrow> receipt option io"
  where
  "swapExactAmountOut this account poolAddress tokenInOutMarket amountsInOutMaxFee =
    (let pool = Contract (poolAbi this) poolAddress in
     io_bind (amountToUnits (web3 this) (Some (tokenIn tokenInOutMarket))
                (maxAmountIn amountsInOutMaxFee)) (\<lambda>unitsIn.
     let amountsInOutMaxFee = amountsInOutMaxFee \<lparr> maxAmountIn := unitsIn \<rparr> in
     io_bind (amountToUnits (web3 this) (Some (tokenOut tokenInOutMarket))
                (tokenAmountOut amountsInOutMaxFee)) (\<lambda>unitsOut.
     let amountsInOutMaxFee = amountsInOutMaxFee \<lparr> tokenAmountOut := unitsOut \<rparr> in
     io_bind (estSwapExactAmountOut this account poolAddress tokenInOutMarket amountsInOutMaxFee
                None) (\<lambda>estGas.
     io_bind
       (case maxPriceOut amountsInOutMaxFee of
          Some p \<Rightarrow> io_lift (toWei (web3 this) p)
        | None \<Rightarrow> io_return (numeric_value MaxUint256)) (\<lambda>maxPrice'.
     io_catch
       (io_bind (io_lift (toWei (web3 this) (swapMarketFeeOut amountsInOutMaxFee))) (\<lambda>fee.
        io_bind (fairGasPrice (web3 this)) (\<lambda>price.
        io_bind (contract_send (web3 this) pool ''swapExactAmountOut''
                   [List [Addr (tokenIn tokenInOutMarket), Addr (tokenOut tokenInOutMarket),
                          Addr (marketFeeAddress tokenInOutMarket)],
                    List [Num (maxAmountIn amountsInOutMaxFee),
                          Num (tokenAmountOut amountsInOutMaxFee),
                          Num (Some maxPrice'), Num (Some fee)]]
                   \<lparr> from_address = account, gas = estGas + 1, gasPrice = price \<rparr>) (\<lambda>result.
        io_return (Some result)))))
       (catch_log ''ERROR: Failed to swap exact amount out: '' None))))))"

subsection \<open>Dual-sided liquidity\<close>

text \<open>
  The loop \<open>for (let i = 0; i < 2; i++)\<close> of \<open>joinPool\<close> and of \<open>exitPool\<close>, over the
  indices still to visit: it reads \<open>tokens[i]\<close> (a \<open>TypeError\<close> when \<open>getFinalTokens\<close> gave
  \<open>null\<close>) and the amount at the same index, converts and appends.
\<close>

fun amounts_loop ::
  "chain \<Rightarrow> address list option \<Rightarrow> rat list \<Rightarrow> nat list \<Rightarrow> rat option list \<Rightarrow> rat option list io"
  where
  "amounts_loop w tokens amounts [] weiAmounts = io_return weiAmounts"
| "amounts_loop w tokens amounts (i # rest) weiAmounts =
    (case tokens of
       None \<Rightarrow> io_throw (TypeError ''Cannot read properties of null (reading 0)'')
     | Some ts \<Rightarrow>
         io_bind (amountToUnits w (js_nth ts i) (js_nth amounts i)) (\<lambda>amount.
         amounts_loop w tokens amounts rest (weiAmounts @ [amount])))"

definition joinPool ::
  "Pool \<Rightarrow> address \<Rightarrow> address \<Rightarrow> rat \<Rightarrow> rat list \<Rightarrow> receipt option io" where
  "joinPool this address poolAddress poolAmountOut maxAmountsIn =
    (let pool = Contract (poolAbi this) poolAddress in
     io_bind (getFinalTokens this poolAddress) (\<lambda>tokens.
     io_bind (amounts_loop (web3 this) tokens maxAmountsIn [0..<2] []) (\<lambda>weiMaxAmountsIn.
     io_bind (io_lift (toWei (web3 this) poolAmountOut)) (\<lambda>wei.
     io_bind (estJoinPool this address poolAddress wei weiMaxAmountsIn None) (\<lambda>estGas.
     io_catch
       (io_bind (io_lift (toWei (web3 this) poolAmountOut)) (\<lambda>wei'.
        io_bind (fairGasPrice (web3 this)) (\<lambda>price.
        io_bind (contract_send (web3 this) pool ''joinPool''
                   [Num (Some wei'), List (map Num weiMaxAmountsIn)]
                   \<lparr> from_address = address, gas = estGas + 1, gasPrice = price \<rparr>) (\<lambda>result.
        io_return (Some result)))))
       (catch_log ''ERROR: Failed to join pool: '' None))))))"

definition exitPool ::
  "Pool \<Rightarrow> address \<Rightarrow> address \<Rightarrow> rat \<Rightarrow> rat list \<Rightarrow> receipt option io" where
  "exitPool this account poolAddress poolAmountIn minAmountsOut =
    (let pool = Contract (poolAbi this) poolAddress in
     io_bind (getFinalTokens this poolAddress) (\<lambda>tokens.
     io_bind (amounts_loop (web3 this) tokens minAmountsOut [0..<2] []) (\<lambda>weiMinAmountsOut.
     io_bind (io_lift (toWei (web3 this) poolAmountIn)) (\<lambda>wei.
     io_bind (estExitPool this account poolAddress wei weiMinAmountsOut None) (\<lambda>estGas.
     io_catch
       (io_bind (io_lift (toWei (web3 this) poolAmountIn)) (\<lambda>wei'.
        io_bind (fairGasPrice (web3 this)) (\<lambda>price.
        io_bind (contract_send (web3 this) pool ''exitPool''
                   [Num (Some wei'), List (map Num weiMinAmountsOut)]
                   \<lparr> from_address = account, gas = estGas, gasPrice = price \<rparr>) (\<lambda>result.
        io_return (Some result)))))
       (catch_log ''ERROR: Failed to exit pool: '' None))))))"

subsection \<open>Observing a run\<close>

text \<open>
  The requests that a run of \<open>m\<close> from the state \<open>s\<close> makes, in order, and the messages
  it logs.
\<close>

definition submitted :: "'a io \<Rightarrow> client_state \<Rightarrow> action list" where
  "submitted m s = drop (length (trace s)) (trace (snd (m s)))"

definition messages :: "'a io \<Rightarrow> client_state \<Rightarrow> string list" where
  "messages m s = drop (length (logged s)) (logged (snd (m s)))"

text \<open>
  A gas estimation or a transaction of the contract method \<open>m\<close>, with its arguments; no
  other request is one.
\<close>

definition method_args :: "string \<Rightarrow> action \<Rightarrow> arg list option" where
  "method_args m a =
    (case a of
       EstimateGas c m' args account \<Rightarrow> if m' = m then Some args else None
     | Send c m' args opts \<Rightarrow> if m' = m then Some args else None
     | Call c m' args \<Rightarrow> None
     | GasPrice \<Rightarrow> None)"

text \<open>
  The max-price bound is the third element of the second argument of a swap; the converted
  amounts are the second argument of \<open>joinPool\<close> and \<open>exitPool\<close>. \<open>all_maxPrice m v acts\<close>:
  every gas estimation and every transaction of the method \<open>m\<close> among \<open>acts\<close> carries the
  max-price bound \<open>v\<close>. \<open>all_amounts m units acts\<close>: each of them carries the array
  \<open>units\<close>.
\<close>

definition maxPrice_arg :: "arg list \<Rightarrow> arg option" where
  "maxPrice_arg args = (case js_nth args 1 of Some (List xs) \<Rightarrow> js_nth xs 2 | _ \<Rightarrow> None)"

definition all_maxPrice :: "string \<Rightarrow> rat \<Rightarrow> action list \<Rightarrow> bool" where
  "all_maxPrice m v acts =
    list_all (\<lambda>act. case method_args m act of
                      None \<Rightarrow> True
                    | Some args \<Rightarrow> maxPrice_arg args = Some (Num (Some v))) acts"

definition all_amounts :: "string \<Rightarrow> rat option list \<Rightarrow> action list \<Rightarrow> bool" where
  "all_amounts m units acts =
    list_all (\<lambda>act. case method_args m act of
                      None \<Rightarrow> True
                    | Some args \<Rightarrow> js_nth args 1 = Some (List (map Num units))) acts"

text \<open>
  The max-price bound given to a swap converts when it is unset or when \<open>toWei\<close> accepts
  it; the swap estimators make this conversion before their \<open>try\<close> block.
\<close>

definition maxPrice_converts :: "chain \<Rightarrow> rat option \<Rightarrow> bool" where
  "maxPrice_converts w mp = (case mp of None \<Rightarrow> True | Some p \<Rightarrow> \<not> isl (toWei w p))"

text \<open>
  The contract binding of an estimator, \<open>contractInstance || new Contract(abi, poolAddress)\<close>;
  the max-price bound of a swap, \<open>maxPrice ? toWei(maxPrice) : MaxUint256\<close>; and the two
  arrays that a swap passes to the contract method.
\<close>

definition own_contract :: "contract option \<Rightarrow> abi \<Rightarrow> address \<Rightarrow> contract" where
  "own_contract contractInstance a poolAddress =
    (case contractInstance of Some c \<Rightarrow> c | None \<Rightarrow> Contract a poolAddress)"

definition maxPrice_bound :: "chain \<Rightarrow> rat option \<Rightarrow> js_error + rat" where
  "maxPrice_bound w mp =
    (case mp of Some p \<Rightarrow> toWei w p | None \<Rightarrow> Inr (numeric_value MaxUint256))"

definition swap_args ::
  "TokenInOutMarket \<Rightarrow> rat option \<Rightarrow> rat option \<Rightarrow> rat \<Rightarrow> rat \<Rightarrow> arg list" where
  "swap_args t amount1 amount2 bound fee =
    [List [Addr (tokenIn t), Addr (tokenOut t), Addr (marketFeeAddress t)],
     List [Num amount1, Num amount2, Num (Some bound), Num (Some fee)]]"

text \<open>
  The decimal count that \<open>tokenDecimals\<close> returns for a token: the one on chain, or 18
  when it cannot be read.
\<close>

definition decimals_or_18 :: "chain \<Rightarrow> address \<Rightarrow> nat" where
  "decimals_or_18 w t =
    (case call_decimals w (Contract defaultErc20Abi_abi t) of Inl e \<Rightarrow> 18 | Inr d \<Rightarrow> d)"

subsection \<open>Two chain connections for examples\<close>

text \<open>
  A connection on which every request succeeds (the token \<open>0xUSDC\<close> has 6 decimals,
  \<open>0xWBTC\<close> has 8, every other one 18; the fee collector is \<open>0xCollector\<close>), one on which
  every request fails, and one whose \<open>toWei\<close> throws on the amount
  \<open>0.0000000000000000001\<close>, which has more than 18 decimal places.
\<close>

definition mock_web3 :: chain where
  "mock_web3 =
    \<lparr> call_uint = (\<lambda>c m args. Inr (10 ^ 8)),
      call_decimals =
        (\<lambda>c. if c = Contract defaultErc20Abi_abi ''0xUSDC'' then Inr 6
             else if c = Contract defaultErc20Abi_abi ''0xWBTC'' then Inr 8
             else Inr 18),
      call_address = (\<lambda>c m. Inr ''0xCollector''),
      call_addresses = (\<lambda>c m. Inr [''0xDT'', ''0xUSDC'']),
      estimateGas = (\<lambda>c m args account. Inr 21000),
      send = (\<lambda>c m args opts. Inr (TransactionReceipt ''0xreceipt'')),
      getFairGasPrice = Inr ''1000000000'',
      toWei = (\<lambda>a. Inr (a * 10 ^ 18)),
      fromWei = (\<lambda>u. case u of
                        None \<Rightarrow> Inl (Error ''Please pass numbers as strings or BN objects'')
                      | Some x \<Rightarrow> Inr (x / 10 ^ 18)) \<rparr>"

definition offline_web3 :: chain where
  "offline_web3 =
    mock_web3
      \<lparr> call_uint := (\<lambda>c m args. Inl (Error ''connection lost'')),
        call_decimals := (\<lambda>c. Inl (Error ''connection lost'')),
        call_address := (\<lambda>c m. Inl (Error ''connection lost'')),
        call_addresses := (\<lambda>c m. Inl (Error ''connection lost'')),
        estimateGas := (\<lambda>c m args account. Inl (Error ''connection lost'')),
        send := (\<lambda>c m args opts. Inl (Error ''connection lost'')),
        getFairGasPrice := Inl (Error ''connection lost'') \<rparr>"

definition strict_web3 :: chain where
  "strict_web3 =
    mock_web3
      \<lparr> toWei := (\<lambda>a. if a = 1 / 10 ^ 19 then Inl (Error ''too many decimal places'')
                      else Inr (a * 10 ^ 18)) \<rparr>"

definition strict_pool :: Pool where
  "strict_pool = \<lparr> poolAbi = PoolTemplate_abi, web3 = strict_web3 \<rparr>"

definition mock_pool :: Pool where
  "mock_pool = \<lparr> poolAbi = PoolTemplate_abi, web3 = mock_web3 \<rparr>"

definition offline_pool :: Pool where
  "offline_pool = \<lparr> poolAbi = PoolTemplate_abi, web3 = offline_web3 \<rparr>"

definition start :: client_state where
  "start = \<lparr> logged = [], trace = [] \<rparr>"

section \<open>Properties of the configuration resolver\<close>

lemma find_configs_miss:
  "nw \<notin> network ` set configs \<Longrightarrow> find (\<lambda>c. network c = nw) configs = None"
  by (auto simp: find_None_iff)

text \<open>
  Claim C4. For a network name that is not the name of any entry of the static table,
  \<open>getConfig\<close> returns the object whose \<open>network\<close> field is the given name and whose
  \<open>url\<close>, \<open>factoryAddress\<close>, \<open>oceanTokenAddress\<close>, \<open>metadataStoreUri\<close> and
  \<open>providerUri\<close> fields are all \<open>null\<close>. The function is total: it has no error result.
\<close>

theorem getConfig_unknown_network:
  "nw \<notin> network ` set configs \<Longrightarrow>
     getConfig nw = \<lparr> network = nw, url = Null, factoryAddress = Null,
                      oceanTokenAddress = Null, metadataStoreUri = Null,
                      providerUri = Null \<rparr>"
  by (simp add: getConfig_def find_configs_miss)

theorem getConfig_unknown_network_witness:
  "''ropsten'' \<notin> network ` set configs \<and>
   getConfig ''ropsten'' = \<lparr> network = ''ropsten'', url = Null, factoryAddress = Null,
                              oceanTokenAddress = Null, metadataStoreUri = Null,
                              providerUri = Null \<rparr>"
proof -
  have miss: "''ropsten'' \<notin> network ` set configs"
    by (simp add: configs_def)
  show ?thesis
    using miss getConfig_unknown_network [OF miss] by simp
qed

section \<open>Properties of the pool client\<close>

subsection \<open>Running the helpers\<close>

lemmas io_defs =
  io_return_def io_throw_def io_lift_def io_bind_def io_catch_def logger_error_def
  request_def catch_log_def contract_call_uint_def contract_call_decimals_def
  contract_call_address_def contract_call_addresses_def contract_estimateGas_def
  contract_send_def fairGasPrice_def

lemmas est_defs =
  estSetSwapFee_def estCollectOPC_def estCollectMarketFee_def estUpdatePublishMarketFee_def
  estJoinPool_def estExitPool_def estJoinswapExternAmountIn_def estExitswapPoolAmountIn_def

lemmas observe_defs =
  submitted_def messages_def all_maxPrice_def all_amounts_def method_args_def
  maxPrice_arg_def js_nth_def

lemma tokenDecimals_run:
  "tokenDecimals w (Some t) s =
     (Inr (decimals_or_18 w t),
      s\<lparr>trace := trace s @ [Call (Contract defaultErc20Abi_abi t) ''decimals'' []]\<rparr>)"
  by (simp add: tokenDecimals_def decimals_or_18_def io_defs split: sum.splits)

lemma amountToUnits_run:
  "amountToUnits w (Some t) a s =
     (Inr (map_option (base_units (decimals_or_18 w t)) a),
      s\<lparr>trace := trace s @ [Call (Contract defaultErc20Abi_abi t) ''decimals'' []]\<rparr>)"
  by (simp add: amountToUnits_def tokenDecimals_run io_bind_def io_return_def)

lemma unitsToAmount_run:
  "unitsToAmount w (Some t) u s =
     (Inr (u / 10 ^ decimals_or_18 w t),
      s\<lparr>trace := trace s @ [Call (Contract defaultErc20Abi_abi t) ''decimals'' []]\<rparr>)"
  by (simp add: unitsToAmount_def tokenDecimals_run io_bind_def io_return_def)

lemma amounts_loop_two:
  "amounts_loop w (Some (t0 # t1 # ts)) (a0 # a1 # rest) [0..<2] [] s =
     (Inr [Some (base_units (decimals_or_18 w t0) a0), Some (base_units (decimals_or_18 w t1) a1)],
      s\<lparr>trace := trace s @ [Call (Contract defaultErc20Abi_abi t0) ''decimals'' [],
                             Call (Contract defaultErc20Abi_abi t1) ''decimals'' []]\<rparr>)"
proof -
  have "[0..<2] = [0, Suc 0]"
    by (simp add: upt_rec)
  then show ?thesis
    by (simp add: amountToUnits_run js_nth_def io_bind_def io_return_def)
qed

lemma numeric_value_MaxUint256: "numeric_value MaxUint256 = 2 ^ 256 - 2"
  by (simp add: numeric_value_def MaxUint256_def digit_value_def)

subsection \<open>The example connections\<close>

lemma mock_pool_simps:
  "poolAbi mock_pool = PoolTemplate_abi"
  "web3 mock_pool = mock_web3"
  "poolAbi offline_pool = PoolTemplate_abi"
  "web3 offline_pool = offline_web3"
  by (simp_all add: mock_pool_def offline_pool_def)

lemma mock_web3_simps:
  "call_uint mock_web3 c m args = Inr (10 ^ 8)"
  "call_address mock_web3 c m = Inr ''0xCollector''"
  "call_addresses mock_web3 c m = Inr [''0xDT'', ''0xUSDC'']"
  "estimateGas mock_web3 c m args account = Inr 21000"
  "send mock_web3 c m args opts = Inr (TransactionReceipt ''0xreceipt'')"
  "getFairGasPrice mock_web3 = Inr ''1000000000''"
  "toWei mock_web3 a = Inr (a * 10 ^ 18)"
  "decimals_or_18 mock_web3 ''0xUSDC'' = 6"
  "decimals_or_18 mock_web3 ''0xDT'' = 18"
  "call_decimals mock_web3 (Contract defaultErc20Abi_abi ''0xUSDC'') = Inr 6"
  "call_decimals mock_web3 (Contract defaultErc20Abi_abi ''0xDT'') = Inr 18"
  "call_decimals mock_web3 (Contract defaultErc20Abi_abi ''0xWBTC'') = Inr 8"
  by (simp_all add: mock_web3_def decimals_or_18_def)

lemma offline_web3_simps:
  "call_uint offline_web3 c m args = Inl (Error ''connection lost'')"
  "call_address offline_web3 c m = Inl (Error ''connection lost'')"
  "estimateGas offline_web3 c m args account = Inl (Error ''connection lost'')"
  "toWei offline_web3 a = Inr (a * 10 ^ 18)"
  by (simp_all add: offline_web3_def mock_web3_def)

subsection \<open>Read methods under a failing call\<close>

text \<open>
  The methods that convert inside the \<open>try\<close> block, or do not convert, log the error and
  resolve to \<open>null\<close> when their call fails.
\<close>

lemma reads_resolve_to_null:
  "call_uint (web3 this) (Contract (poolAbi this) poolAddress) ''balanceOf'' [Addr account] = Inl e \<Longrightarrow>
     fst (sharesBalance this account poolAddress s) = Inr None \<and>
     messages (sharesBalance this account poolAddress) s =
       [''ERROR: Failed to get shares of pool : '' @ message e]"
  "call_uint (web3 this) (Contract (poolAbi this) poolAddress) ''getNumTokens'' [] = Inl e \<Longrightarrow>
     fst (getNumTokens this poolAddress s) = Inr None \<and>
     messages (getNumTokens this poolAddress) s =
       [''ERROR: Failed to get number of tokens: '' @ message e]"
  "call_uint (web3 this) (Contract (poolAbi this) poolAddress) ''getSwapFee'' [] = Inl e \<Longrightarrow>
     fst (getSwapFee this poolAddress s) = Inr None \<and>
     messages (getSwapFee this poolAddress) s = [''ERROR: Failed to get pool fee: '' @ message e]"
  "call_uint (web3 this) (Contract (poolAbi this) poolAddress) ''publishMarketFees'' [Addr token] = Inl e \<Longrightarrow>
     fst (getMarketFees this poolAddress token s) = Inr None \<and>
     messages (getMarketFees this poolAddress token) s =
       [''ERROR: Failed to get market fees for a token: '' @ message e]"
  by (simp_all add: sharesBalance_def getNumTokens_def getSwapFee_def getMarketFees_def io_defs
        messages_def Let_def)

text \<open>
  \<open>getMarketFee\<close> logs the error and then returns or throws whatever \<open>fromWei\<close> does on
  \<open>null\<close>; \<open>getSpotPrice\<close> logs the error and returns the number 0.
\<close>

lemma getMarketFee_after_failed_call:
  "call_uint (web3 this) (Contract (poolAbi this) poolAddress) ''getMarketFee'' [] = Inl e \<Longrightarrow>
     fst (getMarketFee this poolAddress s) = fromWei (web3 this) None \<and>
     messages (getMarketFee this poolAddress) s = [''ERROR: Failed to get getMarketFee: '' @ message e]"
  by (simp add: getMarketFee_def io_defs messages_def Let_def)

lemma getSpotPrice_rescale_null: "getSpotPrice_rescale dIn dOut None = 0"
  by (simp add: getSpotPrice_rescale_def to_number_def Let_def)

lemma getSpotPrice_after_failed_call:
  "toWei (web3 this) fee = Inr wei \<Longrightarrow>
   call_uint (web3 this) (Contract (poolAbi this) poolAddress) ''getSpotPrice''
     [Addr tIn, Addr tOut, Num (Some wei)] = Inl e \<Longrightarrow>
     fst (getSpotPrice this poolAddress tIn tOut fee s) = Inr 0"
  by (simp add: getSpotPrice_def io_defs Let_def getSpotPrice_rescale_null
      split: sum.splits prod.splits)

text \<open>
  Claim C1. The claim is that every read method other than the two authorization-checked
  ones, \<open>getReserve\<close> among them, logs the error and resolves to \<open>null\<close> whenever its
  contract call fails, and that no exception escapes. \<open>getReserve\<close> does log the error, but
  then a \<open>TypeError\<close> escapes: after the \<open>try\<close> block it calls \<open>toString\<close> on the \<open>null\<close>
  that the failed call has left in \<open>amount\<close>.
\<close>

theorem getReserve_throws_when_call_fails:
  assumes "call_uint (web3 this) (Contract (poolAbi this) poolAddress) ''getBalance''
             [Addr token] = Inl e"
  shows "fst (getReserve this poolAddress token s) =
           Inl (TypeError ''Cannot read properties of null (reading toString)'') \<and>
         messages (getReserve this poolAddress token) s =
           [''ERROR: Failed to get how many tokens       are in the pool: '' @ message e]"
  using assms by (simp add: getReserve_def io_defs messages_def Let_def)

theorem getReserve_throws_when_call_fails_witness:
  "call_uint (web3 offline_pool) (Contract (poolAbi offline_pool) ''0xPool'') ''getBalance''
     [Addr ''0xDT''] = Inl (Error ''connection lost'') \<and>
   fst (getReserve offline_pool ''0xPool'' ''0xDT'' start) =
     Inl (TypeError ''Cannot read properties of null (reading toString)'') \<and>
   messages (getReserve offline_pool ''0xPool'' ''0xDT'') start =
     [''ERROR: Failed to get how many tokens       are in the pool: connection lost'']"
proof -
  have h: "call_uint (web3 offline_pool) (Contract (poolAbi offline_pool) ''0xPool'')
             ''getBalance'' [Addr ''0xDT''] = Inl (Error ''connection lost'')"
    by (simp add: mock_pool_simps offline_web3_simps)
  from h getReserve_throws_when_call_fails [OF h, of start] show ?thesis
    by simp
qed

subsection \<open>Spot price scaling\<close>

lemma digits_6_8_18:
  "digits 6 = ''6''"
  "digits 8 = ''8''"
  "digits 18 = ''18''"
  by (simp_all add: digits.simps digit_char_def)

text \<open>
  As strings, \<open>'8' > '6'\<close> and \<open>'6' > '18'\<close> and \<open>'8' > '18'\<close>, and none of the three
  converses holds.
\<close>

lemma js_gt_6_8_18:
  "js_gt (DecimalString 8) (DecimalString 6)"
  "\<not> js_gt (DecimalString 6) (DecimalString 8)"
  "js_gt (DecimalString 6) (DecimalString 18)"
  "\<not> js_gt (DecimalString 18) (DecimalString 6)"
  "js_gt (DecimalString 8) (DecimalString 18)"
  "\<not> js_gt (DecimalString 18) (DecimalString 8)"
  by (simp_all add: digits_6_8_18)








subsection \<open>Privileged fee operations\<close>

lemma getMarketFeeCollector_run:
  "getMarketFeeCollector this poolAddress s =
     (case call_address (web3 this) (Contract (poolAbi this) poolAddress)
             ''_publishMarketCollector'' of
        Inr c \<Rightarrow>
          (Inr (Some c),
           s\<lparr>trace := trace s @
                [Call (Contract (poolAbi this) poolAddress) ''_publishMarketCollector'' []]\<rparr>)
      | Inl e \<Rightarrow>
          (Inr None,
           s\<lparr>trace := trace s @
                [Call (Contract (poolAbi this) poolAddress) ''_publishMarketCollector'' []],
              logged := logged s @
                [''ERROR: Failed to get marketFeeCollector address: '' @ message e]\<rparr>))"
  by (simp add: getMarketFeeCollector_def io_defs Let_def split: sum.splits)





text \<open>
  Claim C10. When the read of the fee collector itself fails, \<open>getMarketFeeCollector\<close> logs
  the error and resolves to \<open>null\<close>, which is not equal to any caller address: for every
  \<open>address\<close> both methods throw \<open>Caller is not MarketFeeCollector\<close>, after that one logged
  message and that one request.
\<close>

theorem failed_collector_lookup_rejects_caller:
  assumes "call_address (web3 this) (Contract (poolAbi this) poolAddress)
             ''_publishMarketCollector'' = Inl e"
  shows "fst (getMarketFeeCollector this poolAddress s) = Inr None \<and>
         fst (collectMarketFee this address poolAddress s) =
           Inl (Error ''Caller is not MarketFeeCollector'') \<and>
         fst (updatePublishMarketFee this address poolAddress newAddress newFee s) =
           Inl (Error ''Caller is not MarketFeeCollector'') \<and>
         messages (collectMarketFee this address poolAddress) s =
           [''ERROR: Failed to get marketFeeCollector address: '' @ message e] \<and>
         messages (updatePublishMarketFee this address poolAddress newAddress newFee) s =
           [''ERROR: Failed to get marketFeeCollector address: '' @ message e] \<and>
         submitted (collectMarketFee this address poolAddress) s =
           [Call (Contract (poolAbi this) poolAddress) ''_publishMarketCollector'' []] \<and>
         submitted (updatePublishMarketFee this address poolAddress newAddress newFee) s =
           [Call (Contract (poolAbi this) poolAddress) ''_publishMarketCollector'' []]"
  using assms
  by (simp add: collectMarketFee_def updatePublishMarketFee_def getMarketFeeCollector_run
        io_bind_def io_throw_def submitted_def messages_def)

theorem failed_collector_lookup_rejects_caller_witness:
  "call_address (web3 offline_pool) (Contract (poolAbi offline_pool) ''0xPool'')
     ''_publishMarketCollector'' = Inl (Error ''connection lost'') \<and>
   fst (collectMarketFee offline_pool ''0xCollector'' ''0xPool'' start) =
     Inl (Error ''Caller is not MarketFeeCollector'') \<and>
   fst (updatePublishMarketFee offline_pool ''0xCollector'' ''0xPool'' ''0xNew'' (1 / 100) start) =
     Inl (Error ''Caller is not MarketFeeCollector'') \<and>
   messages (collectMarketFee offline_pool ''0xCollector'' ''0xPool'') start =
     [''ERROR: Failed to get marketFeeCollector address: connection lost'']"
proof -
  have h: "call_address (web3 offline_pool) (Contract (poolAbi offline_pool) ''0xPool'')
             ''_publishMarketCollector'' = Inl (Error ''connection lost'')"
    by (simp add: mock_pool_simps offline_web3_simps)
  from h
    failed_collector_lookup_rejects_caller
      [OF h, of start "''0xCollector''" "''0xNew''" "1 / 100"]
  show ?thesis by simp
qed

subsection \<open>Gas estimation\<close>

lemma simple_estimators_fall_back:
  shows "isl (estimateGas (web3 this) (own_contract ci defaultErc20Abi_abi poolAddress)
                ''setSwapFee'' [Num (Some fee)] account) \<Longrightarrow>
           fst (estSetSwapFee this account poolAddress fee ci s) = Inr GASLIMIT_DEFAULT"
    and "isl (estimateGas (web3 this) (own_contract ci (poolAbi this) poolAddress)
                ''collectOPC'' [] account) \<Longrightarrow>
           fst (estCollectOPC this account poolAddress ci s) = Inr GASLIMIT_DEFAULT"
    and "isl (estimateGas (web3 this) (own_contract ci (poolAbi this) poolAddress)
                ''collectMarketFee'' [] account) \<Longrightarrow>
           fst (estCollectMarketFee this account poolAddress ci s) = Inr GASLIMIT_DEFAULT"
    and "isl (estimateGas (web3 this) (own_contract ci (poolAbi this) poolAddress)
                ''updatePublishMarketFee'' [Addr newAddress, Num (Some newFee)] account) \<Longrightarrow>
           fst (estUpdatePublishMarketFee this account poolAddress newAddress newFee ci s) =
             Inr GASLIMIT_DEFAULT"
    and "isl (estimateGas (web3 this) (own_contract ci (poolAbi this) poolAddress)
                ''joinPool'' [Num (Some poolAmount), List (map Num amounts)] account) \<Longrightarrow>
           fst (estJoinPool this account poolAddress poolAmount amounts ci s) =
             Inr GASLIMIT_DEFAULT"
    and "isl (estimateGas (web3 this) (own_contract ci (poolAbi this) poolAddress)
                ''exitPool'' [Num (Some poolAmount), List (map Num amounts)] account) \<Longrightarrow>
           fst (estExitPool this account poolAddress poolAmount amounts ci s) =
             Inr GASLIMIT_DEFAULT"
    and "isl (estimateGas (web3 this) (own_contract ci (poolAbi this) poolAddress)
                ''joinswapExternAmountIn'' [Num amountIn, Num (Some poolAmount)] account) \<Longrightarrow>
           fst (estJoinswapExternAmountIn this account poolAddress amountIn poolAmount ci s) =
             Inr GASLIMIT_DEFAULT"
    and "isl (estimateGas (web3 this) (own_contract ci (poolAbi this) poolAddress)
                ''exitswapPoolAmountIn'' [Num (Some poolAmount), Num amountOut] account) \<Longrightarrow>
           fst (estExitswapPoolAmountIn this account poolAddress poolAmount amountOut ci s) =
             Inr GASLIMIT_DEFAULT"
  by (auto simp add: est_defs io_defs Let_def own_contract_def
      split: sum.splits prod.splits option.splits)

lemma simple_estimators_never_raise:
  shows "\<not> isl (fst (estSetSwapFee this account poolAddress fee ci s))"
    and "\<not> isl (fst (estCollectOPC this account poolAddress ci s))"
    and "\<not> isl (fst (estCollectMarketFee this account poolAddress ci s))"
    and "\<not> isl (fst (estUpdatePublishMarketFee this account poolAddress newAddress newFee ci s))"
    and "\<not> isl (fst (estJoinPool this account poolAddress poolAmount amounts ci s))"
    and "\<not> isl (fst (estExitPool this account poolAddress poolAmount amounts ci s))"
    and "\<not> isl (fst (estJoinswapExternAmountIn this account poolAddress amountIn poolAmount ci s))"
    and "\<not> isl (fst (estExitswapPoolAmountIn this account poolAddress poolAmount amountOut ci s))"
  by (auto simp add: est_defs io_defs Let_def split: sum.splits prod.splits option.splits)

lemma swap_estimators_fall_back:
  shows "maxPrice_bound (web3 this) (AmountsInMaxFee.maxPrice amountsIn) = Inr bound \<Longrightarrow>
         toWei (web3 this) (swapMarketFee amountsIn) = Inr wei \<Longrightarrow>
         isl (estimateGas (web3 this) (own_contract ci (poolAbi this) poolAddress)
                ''swapExactAmountIn''
                (swap_args t (tokenAmountIn amountsIn) (minAmountOut amountsIn) bound wei)
                account) \<Longrightarrow>
           fst (estSwapExactAmountIn this account poolAddress t amountsIn ci s) =
             Inr GASLIMIT_DEFAULT"
    and "maxPrice_bound (web3 this) (maxPriceOut amountsOut) = Inr bound \<Longrightarrow>
         toWei (web3 this) (swapMarketFeeOut amountsOut) = Inr wei \<Longrightarrow>
         isl (estimateGas (web3 this) (own_contract ci (poolAbi this) poolAddress)
                ''swapExactAmountOut''
                (swap_args t (maxAmountIn amountsOut) (tokenAmountOut amountsOut) bound wei)
                account) \<Longrightarrow>
           fst (estSwapExactAmountOut this account poolAddress t amountsOut ci s) =
             Inr GASLIMIT_DEFAULT"
  by (auto simp add: estSwapExactAmountIn_def estSwapExactAmountOut_def io_defs Let_def
        own_contract_def maxPrice_bound_def swap_args_def
      split: sum.splits prod.splits option.splits)

lemma swap_estimators_raise:
  shows "AmountsInMaxFee.maxPrice amountsIn = Some p \<Longrightarrow> toWei (web3 this) p = Inl e \<Longrightarrow>
           estSwapExactAmountIn this account poolAddress t amountsIn ci s = (Inl e, s)"
    and "maxPriceOut amountsOut = Some p \<Longrightarrow> toWei (web3 this) p = Inl e \<Longrightarrow>
           estSwapExactAmountOut this account poolAddress t amountsOut ci s = (Inl e, s)"
  by (simp_all add: estSwapExactAmountIn_def estSwapExactAmountOut_def io_defs Let_def)

lemma swap_estimators_never_raise:
  shows "maxPrice_converts (web3 this) (AmountsInMaxFee.maxPrice amountsIn) \<Longrightarrow>
           \<not> isl (fst (estSwapExactAmountIn this account poolAddress t amountsIn ci s))"
    and "maxPrice_converts (web3 this) (maxPriceOut amountsOut) \<Longrightarrow>
           \<not> isl (fst (estSwapExactAmountOut this account poolAddress t amountsOut ci s))"
  by (auto simp add: estSwapExactAmountIn_def estSwapExactAmountOut_def io_defs Let_def
        maxPrice_converts_def isl_def
      split: sum.splits prod.splits option.splits)

lemma strict_pool_simps:
  "poolAbi strict_pool = PoolTemplate_abi"
  "web3 strict_pool = strict_web3"
  "toWei strict_web3 (1 / 10 ^ 19) = Inl (Error ''too many decimal places'')"
  by (simp_all add: strict_pool_def strict_web3_def)

text \<open>
  Claim C5, as stated: none of the ten estimators ever raises. It fails for
  \<open>estSwapExactAmountIn\<close> and \<open>estSwapExactAmountOut\<close>, which evaluate \<open>toWei(maxPrice)\<close>
  before the \<open>try\<close> block. On a connection whose \<open>toWei\<close> throws on an amount with 19
  decimal places, both raise that error when this amount is the max-price bound.
\<close>

theorem swap_estimators_raise_on_max_price:
  "fst (estSwapExactAmountIn strict_pool ''0xLP'' ''0xPool''
          \<lparr> tokenIn = ''0xUSDC'', tokenOut = ''0xDT'', marketFeeAddress = ''0xMarket'' \<rparr>
          \<lparr> tokenAmountIn = Some 1500000, minAmountOut = Some 1, swapMarketFee = 1 / 1000,
             maxPrice = Some (1 / 10 ^ 19) \<rparr> None start) =
     Inl (Error ''too many decimal places'') \<and>
   fst (estSwapExactAmountOut strict_pool ''0xLP'' ''0xPool''
          \<lparr> tokenIn = ''0xUSDC'', tokenOut = ''0xDT'', marketFeeAddress = ''0xMarket'' \<rparr>
          \<lparr> maxAmountIn = Some 1500000, tokenAmountOut = Some 1, swapMarketFeeOut = 1 / 1000,
             maxPriceOut = Some (1 / 10 ^ 19) \<rparr> None start) =
     Inl (Error ''too many decimal places'')"
  by (simp add: estSwapExactAmountIn_def estSwapExactAmountOut_def io_defs Let_def
        strict_pool_def strict_web3_def start_def)

text \<open>
  Claim C5, amended. \<open>GASLIMIT_DEFAULT\<close> is 1000000. For each of the ten estimators, if
  the \<open>estimateGas\<close> call that the estimator makes fails, the estimator returns
  \<open>GASLIMIT_DEFAULT\<close>. The eight estimators other than \<open>estSwapExactAmountIn\<close> and
  \<open>estSwapExactAmountOut\<close> never raise. These two convert the max-price bound before the
  \<open>try\<close> block: when \<open>toWei\<close> throws on \<open>maxPrice\<close> they raise that error, having made no
  request and logged nothing, and when \<open>maxPrice\<close> is unset or converts they do not raise.
\<close>

theorem gas_estimation_falls_back:
  "GASLIMIT_DEFAULT = 1000000 \<and>
   (isl (estimateGas (web3 this) (own_contract ci defaultErc20Abi_abi poolAddress)
           ''setSwapFee'' [Num (Some fee)] account) \<longrightarrow>
      fst (estSetSwapFee this account poolAddress fee ci s) = Inr GASLIMIT_DEFAULT) \<and>
   (isl (estimateGas (web3 this) (own_contract ci (poolAbi this) poolAddress)
           ''collectOPC'' [] account) \<longrightarrow>
      fst (estCollectOPC this account poolAddress ci s) = Inr GASLIMIT_DEFAULT) \<and>
   (isl (estimateGas (web3 this) (own_contract ci (poolAbi this) poolAddress)
           ''collectMarketFee'' [] account) \<longrightarrow>
      fst (estCollectMarketFee this account poolAddress ci s) = Inr GASLIMIT_DEFAULT) \<and>
   (isl (estimateGas (web3 this) (own_contract ci (poolAbi this) poolAddress)
           ''updatePublishMarketFee'' [Addr newAddress, Num (Some newFee)] account) \<longrightarrow>
      fst (estUpdatePublishMarketFee this account poolAddress newAddress newFee ci s) =
        Inr GASLIMIT_DEFAULT) \<and>
   (isl (estimateGas (web3 this) (own_contract ci (poolAbi this) poolAddress)
           ''joinPool'' [Num (Some poolAmount), List (map Num amounts)] account) \<longrightarrow>
      fst (estJoinPool this account poolAddress poolAmount amounts ci s) =
        Inr GASLIMIT_DEFAULT) \<and>
   (isl (estimateGas (web3 this) (own_contract ci (poolAbi this) poolAddress)
           ''exitPool'' [Num (Some poolAmount), List (map Num amounts)] account) \<longrightarrow>
      fst (estExitPool this account poolAddress poolAmount amounts ci s) =
        Inr GASLIMIT_DEFAULT) \<and>
   (isl (estimateGas (web3 this) (own_contract ci (poolAbi this) poolAddress)
           ''joinswapExternAmountIn'' [Num amountIn, Num (Some poolAmount)] account) \<longrightarrow>
      fst (estJoinswapExternAmountIn this account poolAddress amountIn poolAmount ci s) =
        Inr GASLIMIT_DEFAULT) \<and>
   (isl (estimateGas (web3 this) (own_contract ci (poolAbi this) poolAddress)
           ''exitswapPoolAmountIn'' [Num (Some poolAmount), Num amountOut] account) \<longrightarrow>
      fst (estExitswapPoolAmountIn this account poolAddress poolAmount amountOut ci s) =
        Inr GASLIMIT_DEFAULT) \<and>
   (maxPrice_bound (web3 this) (AmountsInMaxFee.maxPrice amountsIn) = Inr boundIn \<and>
    toWei (web3 this) (swapMarketFee amountsIn) = Inr weiIn \<and>
    isl (estimateGas (web3 this) (own_contract ci (poolAbi this) poolAddress)
           ''swapExactAmountIn''
           (swap_args t (tokenAmountIn amountsIn) (minAmountOut amountsIn) boundIn weiIn)
           account) \<longrightarrow>
      fst (estSwapExactAmountIn this account poolAddress t amountsIn ci s) =
        Inr GASLIMIT_DEFAULT) \<and>
   (maxPrice_bound (web3 this) (maxPriceOut amountsOut) = Inr boundOut \<and>
    toWei (web3 this) (swapMarketFeeOut amountsOut) = Inr weiOut \<and>
    isl (estimateGas (web3 this) (own_contract ci (poolAbi this) poolAddress)
           ''swapExactAmountOut''
           (swap_args t (maxAmountIn amountsOut) (tokenAmountOut amountsOut) boundOut weiOut)
           account) \<longrightarrow>
      fst (estSwapExactAmountOut this account poolAddress t amountsOut ci s) =
        Inr GASLIMIT_DEFAULT) \<and>
   \<not> isl (fst (estSetSwapFee this account poolAddress fee ci s)) \<and>
   \<not> isl (fst (estCollectOPC this account poolAddress ci s)) \<and>
   \<not> isl (fst (estCollectMarketFee this account poolAddress ci s)) \<and>
   \<not> isl (fst (estUpdatePublishMarketFee this account poolAddress newAddress newFee ci s)) \<and>
   \<not> isl (fst (estJoinPool this account poolAddress poolAmount amounts ci s)) \<and>
   \<not> isl (fst (estExitPool this account poolAddress poolAmount amounts ci s)) \<and>
   \<not> isl (fst (estJoinswapExternAmountIn this account poolAddress amountIn poolAmount ci s)) \<and>
   \<not> isl (fst (estExitswapPoolAmountIn this account poolAddress poolAmount amountOut ci s)) \<and>
   (AmountsInMaxFee.maxPrice amountsIn = Some pIn \<and> toWei (web3 this) pIn = Inl eIn \<longrightarrow>
      estSwapExactAmountIn this account poolAddress t amountsIn ci s = (Inl eIn, s)) \<and>
   (maxPriceOut amountsOut = Some pOut \<and> toWei (web3 this) pOut = Inl eOut \<longrightarrow>
      estSwapExactAmountOut this account poolAddress t amountsOut ci s = (Inl eOut, s)) \<and>
   (maxPrice_converts (web3 this) (AmountsInMaxFee.maxPrice amountsIn) \<longrightarrow>
      \<not> isl (fst (estSwapExactAmountIn this account poolAddress t amountsIn ci s))) \<and>
   (maxPrice_converts (web3 this) (maxPriceOut amountsOut) \<longrightarrow>
      \<not> isl (fst (estSwapExactAmountOut this account poolAddress t amountsOut ci s)))"
proof (intro conjI impI)
  show "GASLIMIT_DEFAULT = 1000000"
    by (simp add: GASLIMIT_DEFAULT_def)
qed (simp_all add: simple_estimators_fall_back simple_estimators_never_raise
       swap_estimators_fall_back swap_estimators_raise swap_estimators_never_raise)

theorem gas_estimation_falls_back_witness:
  "fst (estSetSwapFee offline_pool ''0xLP'' ''0xPool'' (1 / 100) None start) = Inr 1000000 \<and>
   fst (estCollectOPC offline_pool ''0xLP'' ''0xPool'' None start) = Inr 1000000 \<and>
   fst (estCollectMarketFee offline_pool ''0xLP'' ''0xPool'' None start) = Inr 1000000 \<and>
   fst (estUpdatePublishMarketFee offline_pool ''0xLP'' ''0xPool'' ''0xNew'' (1 / 100) None start) =
     Inr 1000000 \<and>
   fst (estJoinPool offline_pool ''0xLP'' ''0xPool'' 1 [Some 2, Some 3] None start) = Inr 1000000 \<and>
   fst (estExitPool offline_pool ''0xLP'' ''0xPool'' 1 [Some 2, Some 3] None start) = Inr 1000000 \<and>
   fst (estJoinswapExternAmountIn offline_pool ''0xLP'' ''0xPool'' (Some 2) 1 None start) =
     Inr 1000000 \<and>
   fst (estExitswapPoolAmountIn offline_pool ''0xLP'' ''0xPool'' 1 (Some 2) None start) =
     Inr 1000000 \<and>
   fst (estSwapExactAmountIn offline_pool ''0xLP'' ''0xPool''
          \<lparr> tokenIn = ''0xUSDC'', tokenOut = ''0xDT'', marketFeeAddress = ''0xMarket'' \<rparr>
          \<lparr> tokenAmountIn = Some 1500000, minAmountOut = Some 1, swapMarketFee = 1 / 1000,
             maxPrice = None \<rparr> None start) = Inr 1000000 \<and>
   fst (estSwapExactAmountOut offline_pool ''0xLP'' ''0xPool''
          \<lparr> tokenIn = ''0xUSDC'', tokenOut = ''0xDT'', marketFeeAddress = ''0xMarket'' \<rparr>
          \<lparr> maxAmountIn = Some 1500000, tokenAmountOut = Some 1, swapMarketFeeOut = 1 / 1000,
             maxPriceOut = Some 5 \<rparr> None start) = Inr 1000000 \<and>
   estSwapExactAmountIn strict_pool ''0xLP'' ''0xPool''
     \<lparr> tokenIn = ''0xUSDC'', tokenOut = ''0xDT'', marketFeeAddress = ''0xMarket'' \<rparr>
     \<lparr> tokenAmountIn = Some 1500000, minAmountOut = Some 1, swapMarketFee = 1 / 1000,
        maxPrice = Some (1 / 10 ^ 19) \<rparr> None start =
     (Inl (Error ''too many decimal places''), start) \<and>
   estSwapExactAmountOut strict_pool ''0xLP'' ''0xPool''
     \<lparr> tokenIn = ''0xUSDC'', tokenOut = ''0xDT'', marketFeeAddress = ''0xMarket'' \<rparr>
     \<lparr> maxAmountIn = Some 1500000, tokenAmountOut = Some 1, swapMarketFeeOut = 1 / 1000,
        maxPriceOut = Some (1 / 10 ^ 19) \<rparr> None start =
     (Inl (Error ''too many decimal places''), start)"
proof -
  have fails: "isl (estimateGas (web3 offline_pool) c m args a)" for c m args a
    by (simp add: mock_pool_simps offline_web3_simps)
  have bound_in: "maxPrice_bound (web3 offline_pool) None = Inr (numeric_value MaxUint256)"
    by (simp add: maxPrice_bound_def)
  have bound_out: "maxPrice_bound (web3 offline_pool) (Some 5) = Inr (5 * 10 ^ 18)"
    by (simp add: maxPrice_bound_def mock_pool_simps offline_web3_simps)
  have wei: "toWei (web3 offline_pool) (1 / 1000) = Inr (1 / 1000 * 10 ^ 18)"
    by (simp add: mock_pool_simps offline_web3_simps)
  have unset: "maxPrice_converts (web3 offline_pool) None"
    by (simp add: maxPrice_converts_def)
  have conv: "maxPrice_converts (web3 offline_pool) (Some 5)"
    by (simp add: maxPrice_converts_def mock_pool_simps offline_web3_simps)
  have throws: "toWei (web3 strict_pool) (1 / 10 ^ 19) = Inl (Error ''too many decimal places'')"
    by (simp only: strict_pool_simps)
  have fallback:
    "fst (estSetSwapFee offline_pool ''0xLP'' ''0xPool'' (1 / 100) None start) = Inr 1000000 \<and>
     fst (estCollectOPC offline_pool ''0xLP'' ''0xPool'' None start) = Inr 1000000 \<and>
     fst (estCollectMarketFee offline_pool ''0xLP'' ''0xPool'' None start) = Inr 1000000 \<and>
     fst (estUpdatePublishMarketFee offline_pool ''0xLP'' ''0xPool'' ''0xNew'' (1 / 100) None
            start) = Inr 1000000 \<and>
     fst (estJoinPool offline_pool ''0xLP'' ''0xPool'' 1 [Some 2, Some 3] None start) =
       Inr 1000000 \<and>
     fst (estExitPool offline_pool ''0xLP'' ''0xPool'' 1 [Some 2, Some 3] None start) =
       Inr 1000000 \<and>
     fst (estJoinswapExternAmountIn offline_pool ''0xLP'' ''0xPool'' (Some 2) 1 None start) =
       Inr 1000000 \<and>
     fst (estExitswapPoolAmountIn offline_pool ''0xLP'' ''0xPool'' 1 (Some 2) None start) =
       Inr 1000000 \<and>
     fst (estSwapExactAmountIn offline_pool ''0xLP'' ''0xPool''
            \<lparr> tokenIn = ''0xUSDC'', tokenOut = ''0xDT'', marketFeeAddress = ''0xMarket'' \<rparr>
            \<lparr> tokenAmountIn = Some 1500000, minAmountOut = Some 1, swapMarketFee = 1 / 1000,
               maxPrice = None \<rparr> None start) = Inr 1000000 \<and>
     fst (estSwapExactAmountOut offline_pool ''0xLP'' ''0xPool''
            \<lparr> tokenIn = ''0xUSDC'', tokenOut = ''0xDT'', marketFeeAddress = ''0xMarket'' \<rparr>
            \<lparr> maxAmountIn = Some 1500000, tokenAmountOut = Some 1, swapMarketFeeOut = 1 / 1000,
               maxPriceOut = Some 5 \<rparr> None start) = Inr 1000000"
    using gas_estimation_falls_back
      [where this = offline_pool and account = "''0xLP''" and poolAddress = "''0xPool''"
         and fee = "1 / 100" and ci = None and s = start and newAddress = "''0xNew''"
         and newFee = "1 / 100" and poolAmount = 1 and amounts = "[Some 2, Some 3]"
         and amountIn = "Some 2" and amountOut = "Some 2"
         and t = "\<lparr> tokenIn = ''0xUSDC'', tokenOut = ''0xDT'', marketFeeAddress = ''0xMarket'' \<rparr>"
         and amountsIn = "\<lparr> tokenAmountIn = Some 1500000, minAmountOut = Some 1,
                             swapMarketFee = 1 / 1000, maxPrice = None \<rparr>"
         and amountsOut = "\<lparr> maxAmountIn = Some 1500000, tokenAmountOut = Some 1,
                              swapMarketFeeOut = 1 / 1000, maxPriceOut = Some 5 \<rparr>"
         and boundIn = "numeric_value MaxUint256" and boundOut = "5 * 10 ^ 18"
         and weiIn = "1 / 1000 * 10 ^ 18" and weiOut = "1 / 1000 * 10 ^ 18"]
      fails bound_in bound_out wei unset conv
    by simp
  have raises:
    "estSwapExactAmountIn strict_pool ''0xLP'' ''0xPool''
       \<lparr> tokenIn = ''0xUSDC'', tokenOut = ''0xDT'', marketFeeAddress = ''0xMarket'' \<rparr>
       \<lparr> tokenAmountIn = Some 1500000, minAmountOut = Some 1, swapMarketFee = 1 / 1000,
          maxPrice = Some (1 / 10 ^ 19) \<rparr> None start =
       (Inl (Error ''too many decimal places''), start) \<and>
     estSwapExactAmountOut strict_pool ''0xLP'' ''0xPool''
       \<lparr> tokenIn = ''0xUSDC'', tokenOut = ''0xDT'', marketFeeAddress = ''0xMarket'' \<rparr>
       \<lparr> maxAmountIn = Some 1500000, tokenAmountOut = Some 1, swapMarketFeeOut = 1 / 1000,
          maxPriceOut = Some (1 / 10 ^ 19) \<rparr> None start =
       (Inl (Error ''too many decimal places''), start)"
    using gas_estimation_falls_back
      [where this = strict_pool and account = "''0xLP''" and poolAddress = "''0xPool''"
         and ci = None and s = start
         and t = "\<lparr> tokenIn = ''0xUSDC'', tokenOut = ''0xDT'', marketFeeAddress = ''0xMarket'' \<rparr>"
         and amountsIn = "\<lparr> tokenAmountIn = Some 1500000, minAmountOut = Some 1,
                             swapMarketFee = 1 / 1000, maxPrice = Some (1 / 10 ^ 19) \<rparr>"
         and amountsOut = "\<lparr> maxAmountIn = Some 1500000, tokenAmountOut = Some 1,
                              swapMarketFeeOut = 1 / 1000, maxPriceOut = Some (1 / 10 ^ 19) \<rparr>"
         and pIn = "1 / 10 ^ 19" and pOut = "1 / 10 ^ 19"
         and eIn = "Error ''too many decimal places''"
         and eOut = "Error ''too many decimal places''"]
      throws
    by simp
  from fallback raises show ?thesis by blast
qed

subsection \<open>The max-price bound of a swap\<close>

lemma swapExactAmountIn_unset:
  assumes "AmountsInMaxFee.maxPrice a = None"
  shows "all_maxPrice ''swapExactAmountIn'' (numeric_value MaxUint256)
           (submitted (swapExactAmountIn this address poolAddress t a) s)"
    and "all_maxPrice ''swapExactAmountIn'' (numeric_value MaxUint256)
           (submitted (estSwapExactAmountIn this address poolAddress t a ci) s)"
  using assms
  by (simp_all add: swapExactAmountIn_def estSwapExactAmountIn_def amountToUnits_run io_defs
        Let_def observe_defs
      split: sum.splits prod.splits option.splits)

lemma swapExactAmountIn_set:
  assumes "AmountsInMaxFee.maxPrice a = Some p" and "toWei (web3 this) p = Inr v"
  shows "all_maxPrice ''swapExactAmountIn'' v
           (submitted (swapExactAmountIn this address poolAddress t a) s)"
    and "all_maxPrice ''swapExactAmountIn'' v
           (submitted (estSwapExactAmountIn this address poolAddress t a ci) s)"
  using assms
  by (simp_all add: swapExactAmountIn_def estSwapExactAmountIn_def amountToUnits_run io_defs
        Let_def observe_defs
      split: sum.splits prod.splits option.splits)

lemma swapExactAmountOut_unset:
  assumes "maxPriceOut a = None"
  shows "all_maxPrice ''swapExactAmountOut'' (numeric_value MaxUint256)
           (submitted (swapExactAmountOut this address poolAddress t a) s)"
    and "all_maxPrice ''swapExactAmountOut'' (numeric_value MaxUint256)
           (submitted (estSwapExactAmountOut this address poolAddress t a ci) s)"
  using assms
  by (simp_all add: swapExactAmountOut_def estSwapExactAmountOut_def amountToUnits_run io_defs
        Let_def observe_defs
      split: sum.splits prod.splits option.splits)

text \<open>
  When the max-price bound converts to \<open>bound\<close> (the number of \<open>MaxUint256\<close> if it is
  unset), the fee converts and the gas price is obtained, \<open>swapExactAmountIn\<close> makes five
  requests: the two decimal counts, the gas estimation, the gas price and the transaction;
  the estimation and the transaction have the same arguments. The estimator alone makes
  the one estimation.
\<close>

lemma swapExactAmountIn_requests:
  assumes "maxPrice_bound (web3 this) (AmountsInMaxFee.maxPrice a) = Inr bound"
    and "toWei (web3 this) (swapMarketFee a) = Inr wei"
    and "getFairGasPrice (web3 this) = Inr price"
  shows "submitted (swapExactAmountIn this address poolAddress t a) s =
         [Call (Contract defaultErc20Abi_abi (tokenIn t)) ''decimals'' [],
          Call (Contract defaultErc20Abi_abi (tokenOut t)) ''decimals'' [],
          EstimateGas (Contract (poolAbi this) poolAddress) ''swapExactAmountIn''
            (swap_args t
               (map_option (base_units (decimals_or_18 (web3 this) (tokenIn t)))
                  (tokenAmountIn a))
               (map_option (base_units (decimals_or_18 (web3 this) (tokenOut t)))
                  (minAmountOut a))
               bound wei)
            address,
          GasPrice,
          Send (Contract (poolAbi this) poolAddress) ''swapExactAmountIn''
            (swap_args t
               (map_option (base_units (decimals_or_18 (web3 this) (tokenIn t)))
                  (tokenAmountIn a))
               (map_option (base_units (decimals_or_18 (web3 this) (tokenOut t)))
                  (minAmountOut a))
               bound wei)
            \<lparr> from_address = address,
               gas =
                 (case estimateGas (web3 this) (Contract (poolAbi this) poolAddress)
                         ''swapExactAmountIn''
                         (swap_args t
                            (map_option (base_units (decimals_or_18 (web3 this) (tokenIn t)))
                               (tokenAmountIn a))
                            (map_option (base_units (decimals_or_18 (web3 this) (tokenOut t)))
                               (minAmountOut a))
                            bound wei)
                         address of
                    Inl e \<Rightarrow> GASLIMIT_DEFAULT
                  | Inr g \<Rightarrow> g) + 1,
               gasPrice = price \<rparr>]"
proof (cases "AmountsInMaxFee.maxPrice a")
  case None
  with assms(1) have bound: "bound = numeric_value MaxUint256"
    by (simp add: maxPrice_bound_def)
  show ?thesis
    using assms(2,3) None unfolding bound
    by (simp add: swapExactAmountIn_def estSwapExactAmountIn_def amountToUnits_run io_defs
          Let_def submitted_def swap_args_def
        split: sum.splits prod.splits)
next
  case (Some p)
  with assms(1) have "toWei (web3 this) p = Inr bound"
    by (simp add: maxPrice_bound_def)
  then show ?thesis
    using assms(2,3) Some
    by (simp add: swapExactAmountIn_def estSwapExactAmountIn_def amountToUnits_run io_defs
          Let_def submitted_def swap_args_def
        split: sum.splits prod.splits)
qed

lemma estSwapExactAmountIn_requests:
  assumes "maxPrice_bound (web3 this) (AmountsInMaxFee.maxPrice a) = Inr bound"
    and "toWei (web3 this) (swapMarketFee a) = Inr wei"
  shows "submitted (estSwapExactAmountIn this address poolAddress t a ci) s =
         [EstimateGas (own_contract ci (poolAbi this) poolAddress) ''swapExactAmountIn''
            (swap_args t (tokenAmountIn a) (minAmountOut a) bound wei) address]"
proof (cases "AmountsInMaxFee.maxPrice a")
  case None
  with assms(1) have bound: "bound = numeric_value MaxUint256"
    by (simp add: maxPrice_bound_def)
  show ?thesis
    using assms(2) None unfolding bound
    by (simp add: estSwapExactAmountIn_def io_defs Let_def submitted_def swap_args_def
          own_contract_def
        split: sum.splits prod.splits)
next
  case (Some p)
  with assms(1) have "toWei (web3 this) p = Inr bound"
    by (simp add: maxPrice_bound_def)
  then show ?thesis
    using assms(2) Some
    by (simp add: estSwapExactAmountIn_def io_defs Let_def submitted_def swap_args_def
          own_contract_def
        split: sum.splits prod.splits)
qed

text \<open>
  Claim C6. If \<open>maxPrice\<close> is unset, every gas estimation and every transaction that
  \<open>swapExactAmountIn\<close> and its estimator submit carries the number of \<open>MaxUint256\<close> as the
  max-price bound; that number is not zero, and the argument is a number, not \<open>null\<close>. If
  \<open>maxPrice\<close> is set and converts to \<open>v\<close>, every one of them carries \<open>v\<close>. In both cases
  they are submitted: when the fee converts, the estimator makes exactly its one
  \<open>estimateGas\<close> request with that bound, and when the gas price is obtained as well, the
  swap makes exactly five requests, of which the gas estimation and the transaction carry
  that bound.
\<close>

theorem swapExactAmountIn_max_price_bound:
  "(AmountsInMaxFee.maxPrice a = None \<longrightarrow>
      all_maxPrice ''swapExactAmountIn'' (numeric_value MaxUint256)
        (submitted (swapExactAmountIn this address poolAddress t a) s) \<and>
      all_maxPrice ''swapExactAmountIn'' (numeric_value MaxUint256)
        (submitted (estSwapExactAmountIn this address poolAddress t a ci) s)) \<and>
   numeric_value MaxUint256 \<noteq> 0 \<and>
   (AmountsInMaxFee.maxPrice a = Some p \<and> toWei (web3 this) p = Inr v \<longrightarrow>
      all_maxPrice ''swapExactAmountIn'' v
        (submitted (swapExactAmountIn this address poolAddress t a) s) \<and>
      all_maxPrice ''swapExactAmountIn'' v
        (submitted (estSwapExactAmountIn this address poolAddress t a ci) s)) \<and>
   ((AmountsInMaxFee.maxPrice a = None \<and> bound = numeric_value MaxUint256 \<or>
     AmountsInMaxFee.maxPrice a = Some p \<and> toWei (web3 this) p = Inr bound) \<and>
    toWei (web3 this) (swapMarketFee a) = Inr wei \<longrightarrow>
      submitted (estSwapExactAmountIn this address poolAddress t a ci) s =
        [EstimateGas (own_contract ci (poolAbi this) poolAddress) ''swapExactAmountIn''
           (swap_args t (tokenAmountIn a) (minAmountOut a) bound wei) address] \<and>
      maxPrice_arg (swap_args t (tokenAmountIn a) (minAmountOut a) bound wei) =
        Some (Num (Some bound))) \<and>
   ((AmountsInMaxFee.maxPrice a = None \<and> bound = numeric_value MaxUint256 \<or>
     AmountsInMaxFee.maxPrice a = Some p \<and> toWei (web3 this) p = Inr bound) \<and>
    toWei (web3 this) (swapMarketFee a) = Inr wei \<and>
    getFairGasPrice (web3 this) = Inr price \<longrightarrow>
      submitted (swapExactAmountIn this address poolAddress t a) s =
        [Call (Contract defaultErc20Abi_abi (tokenIn t)) ''decimals'' [],
         Call (Contract defaultErc20Abi_abi (tokenOut t)) ''decimals'' [],
         EstimateGas (Contract (poolAbi this) poolAddress) ''swapExactAmountIn''
           (swap_args t
              (map_option (base_units (decimals_or_18 (web3 this) (tokenIn t)))
                 (tokenAmountIn a))
              (map_option (base_units (decimals_or_18 (web3 this) (tokenOut t)))
                 (minAmountOut a))
              bound wei)
           address,
         GasPrice,
         Send (Contract (poolAbi this) poolAddress) ''swapExactAmountIn''
           (swap_args t
              (map_option (base_units (decimals_or_18 (web3 this) (tokenIn t)))
                 (tokenAmountIn a))
              (map_option (base_units (decimals_or_18 (web3 this) (tokenOut t)))
                 (minAmountOut a))
              bound wei)
           \<lparr> from_address = address,
              gas =
                (case estimateGas (web3 this) (Contract (poolAbi this) poolAddress)
                        ''swapExactAmountIn''
                        (swap_args t
                           (map_option (base_units (decimals_or_18 (web3 this) (tokenIn t)))
                              (tokenAmountIn a))
                           (map_option (base_units (decimals_or_18 (web3 this) (tokenOut t)))
                              (minAmountOut a))
                           bound wei)
                        address of
                   Inl e \<Rightarrow> GASLIMIT_DEFAULT
                 | Inr g \<Rightarrow> g) + 1,
              gasPrice = price \<rparr>])"
proof -
  have nonzero: "numeric_value MaxUint256 \<noteq> 0"
    by (simp add: numeric_value_MaxUint256)
  have bound: "maxPrice_bound (web3 this) (AmountsInMaxFee.maxPrice a) = Inr bound"
    if "AmountsInMaxFee.maxPrice a = None \<and> bound = numeric_value MaxUint256 \<or>
        AmountsInMaxFee.maxPrice a = Some p \<and> toWei (web3 this) p = Inr bound"
    using that by (auto simp: maxPrice_bound_def)
  have arg: "maxPrice_arg (swap_args t (tokenAmountIn a) (minAmountOut a) bound wei) =
               Some (Num (Some bound))"
    by (simp add: maxPrice_arg_def swap_args_def js_nth_def)
  show ?thesis
    using nonzero arg
    by (intro conjI impI; (elim conjE)?)
       (simp_all add: swapExactAmountIn_unset swapExactAmountIn_set
          estSwapExactAmountIn_requests [OF bound] swapExactAmountIn_requests [OF bound])
qed

theorem swapExactAmountIn_max_price_bound_witness:
  "submitted
     (swapExactAmountIn mock_pool ''0xTrader'' ''0xPool''
        \<lparr> tokenIn = ''0xUSDC'', tokenOut = ''0xDT'', marketFeeAddress = ''0xMarket'' \<rparr>
        \<lparr> tokenAmountIn = Some (3 / 2), minAmountOut = Some 1, swapMarketFee = 1 / 1000,
           maxPrice = None \<rparr>) start =
   [Call (Contract defaultErc20Abi_abi ''0xUSDC'') ''decimals'' [],
    Call (Contract defaultErc20Abi_abi ''0xDT'') ''decimals'' [],
    EstimateGas (Contract PoolTemplate_abi ''0xPool'') ''swapExactAmountIn''
      [List [Addr ''0xUSDC'', Addr ''0xDT'', Addr ''0xMarket''],
       List [Num (Some 1500000), Num (Some (10 ^ 18)), Num (Some (2 ^ 256 - 2)),
             Num (Some (10 ^ 15))]]
      ''0xTrader'',
    GasPrice,
    Send (Contract PoolTemplate_abi ''0xPool'') ''swapExactAmountIn''
      [List [Addr ''0xUSDC'', Addr ''0xDT'', Addr ''0xMarket''],
       List [Num (Some 1500000), Num (Some (10 ^ 18)), Num (Some (2 ^ 256 - 2)),
             Num (Some (10 ^ 15))]]
      \<lparr> from_address = ''0xTrader'', gas = 21001, gasPrice = ''1000000000'' \<rparr>] \<and>
   submitted
     (swapExactAmountIn mock_pool ''0xTrader'' ''0xPool''
        \<lparr> tokenIn = ''0xUSDC'', tokenOut = ''0xDT'', marketFeeAddress = ''0xMarket'' \<rparr>
        \<lparr> tokenAmountIn = Some (3 / 2), minAmountOut = Some 1, swapMarketFee = 1 / 1000,
           maxPrice = Some 5 \<rparr>) start =
   [Call (Contract defaultErc20Abi_abi ''0xUSDC'') ''decimals'' [],
    Call (Contract defaultErc20Abi_abi ''0xDT'') ''decimals'' [],
    EstimateGas (Contract PoolTemplate_abi ''0xPool'') ''swapExactAmountIn''
      [List [Addr ''0xUSDC'', Addr ''0xDT'', Addr ''0xMarket''],
       List [Num (Some 1500000), Num (Some (10 ^ 18)), Num (Some (5 * 10 ^ 18)),
             Num (Some (10 ^ 15))]]
      ''0xTrader'',
    GasPrice,
    Send (Contract PoolTemplate_abi ''0xPool'') ''swapExactAmountIn''
      [List [Addr ''0xUSDC'', Addr ''0xDT'', Addr ''0xMarket''],
       List [Num (Some 1500000), Num (Some (10 ^ 18)), Num (Some (5 * 10 ^ 18)),
             Num (Some (10 ^ 15))]]
      \<lparr> from_address = ''0xTrader'', gas = 21001, gasPrice = ''1000000000'' \<rparr>] \<and>
   submitted
     (estSwapExactAmountIn mock_pool ''0xTrader'' ''0xPool''
        \<lparr> tokenIn = ''0xUSDC'', tokenOut = ''0xDT'', marketFeeAddress = ''0xMarket'' \<rparr>
        \<lparr> tokenAmountIn = Some 1500000, minAmountOut = Some 1, swapMarketFee = 1 / 1000,
           maxPrice = None \<rparr> None) start =
   [EstimateGas (Contract PoolTemplate_abi ''0xPool'') ''swapExactAmountIn''
      [List [Addr ''0xUSDC'', Addr ''0xDT'', Addr ''0xMarket''],
       List [Num (Some 1500000), Num (Some 1), Num (Some (2 ^ 256 - 2)),
             Num (Some (10 ^ 15))]]
      ''0xTrader''] \<and>
   submitted
     (estSwapExactAmountIn mock_pool ''0xTrader'' ''0xPool''
        \<lparr> tokenIn = ''0xUSDC'', tokenOut = ''0xDT'', marketFeeAddress = ''0xMarket'' \<rparr>
        \<lparr> tokenAmountIn = Some 1500000, minAmountOut = Some 1, swapMarketFee = 1 / 1000,
           maxPrice = Some 5 \<rparr> None) start =
   [EstimateGas (Contract PoolTemplate_abi ''0xPool'') ''swapExactAmountIn''
      [List [Addr ''0xUSDC'', Addr ''0xDT'', Addr ''0xMarket''],
       List [Num (Some 1500000), Num (Some 1), Num (Some (5 * 10 ^ 18)),
             Num (Some (10 ^ 15))]]
      ''0xTrader''] \<and>
   all_maxPrice ''swapExactAmountIn'' (2 ^ 256 - 2)
     (submitted
        (swapExactAmountIn mock_pool ''0xTrader'' ''0xPool''
           \<lparr> tokenIn = ''0xUSDC'', tokenOut = ''0xDT'', marketFeeAddress = ''0xMarket'' \<rparr>
           \<lparr> tokenAmountIn = Some (3 / 2), minAmountOut = Some 1, swapMarketFee = 1 / 1000,
              maxPrice = None \<rparr>) start) \<and>
   all_maxPrice ''swapExactAmountIn'' (5 * 10 ^ 18)
     (submitted
        (swapExactAmountIn mock_pool ''0xTrader'' ''0xPool''
           \<lparr> tokenIn = ''0xUSDC'', tokenOut = ''0xDT'', marketFeeAddress = ''0xMarket'' \<rparr>
           \<lparr> tokenAmountIn = Some (3 / 2), minAmountOut = Some 1, swapMarketFee = 1 / 1000,
              maxPrice = Some 5 \<rparr>) start)"
proof -
  have units: "base_units 6 (3 / 2) = 1500000" "base_units 18 1 = 10 ^ 18"
    by (simp_all add: base_units_def)
  have unset_swap:
    "submitted
       (swapExactAmountIn mock_pool ''0xTrader'' ''0xPool''
          \<lparr> tokenIn = ''0xUSDC'', tokenOut = ''0xDT'', marketFeeAddress = ''0xMarket'' \<rparr>
          \<lparr> tokenAmountIn = Some (3 / 2), minAmountOut = Some 1, swapMarketFee = 1 / 1000,
             maxPrice = None \<rparr>) start =
     [Call (Contract defaultErc20Abi_abi ''0xUSDC'') ''decimals'' [],
      Call (Contract defaultErc20Abi_abi ''0xDT'') ''decimals'' [],
      EstimateGas (Contract PoolTemplate_abi ''0xPool'') ''swapExactAmountIn''
        [List [Addr ''0xUSDC'', Addr ''0xDT'', Addr ''0xMarket''],
         List [Num (Some 1500000), Num (Some (10 ^ 18)), Num (Some (2 ^ 256 - 2)),
               Num (Some (10 ^ 15))]]
        ''0xTrader'',
      GasPrice,
      Send (Contract PoolTemplate_abi ''0xPool'') ''swapExactAmountIn''
        [List [Addr ''0xUSDC'', Addr ''0xDT'', Addr ''0xMarket''],
         List [Num (Some 1500000), Num (Some (10 ^ 18)), Num (Some (2 ^ 256 - 2)),
               Num (Some (10 ^ 15))]]
        \<lparr> from_address = ''0xTrader'', gas = 21001, gasPrice = ''1000000000'' \<rparr>] \<and>
     all_maxPrice ''swapExactAmountIn'' (2 ^ 256 - 2)
       (submitted
          (swapExactAmountIn mock_pool ''0xTrader'' ''0xPool''
             \<lparr> tokenIn = ''0xUSDC'', tokenOut = ''0xDT'', marketFeeAddress = ''0xMarket'' \<rparr>
             \<lparr> tokenAmountIn = Some (3 / 2), minAmountOut = Some 1, swapMarketFee = 1 / 1000,
                maxPrice = None \<rparr>) start)"
    using swapExactAmountIn_max_price_bound
      [where this = mock_pool and address = "''0xTrader''" and poolAddress = "''0xPool''"
         and t = "\<lparr> tokenIn = ''0xUSDC'', tokenOut = ''0xDT'', marketFeeAddress = ''0xMarket'' \<rparr>"
         and a = "\<lparr> tokenAmountIn = Some (3 / 2), minAmountOut = Some 1,
                     swapMarketFee = 1 / 1000, maxPrice = None \<rparr>"
         and s = start and ci = None and wei = "1 / 1000 * 10 ^ 18"
         and bound = "numeric_value MaxUint256" and price = "''1000000000''"]
    by (simp add: mock_pool_simps mock_web3_simps numeric_value_MaxUint256 swap_args_def units
          GASLIMIT_DEFAULT_def all_maxPrice_def method_args_def maxPrice_arg_def js_nth_def)
  have set_swap:
    "submitted
       (swapExactAmountIn mock_pool ''0xTrader'' ''0xPool''
          \<lparr> tokenIn = ''0xUSDC'', tokenOut = ''0xDT'', marketFeeAddress = ''0xMarket'' \<rparr>
          \<lparr> tokenAmountIn = Some (3 / 2), minAmountOut = Some 1, swapMarketFee = 1 / 1000,
             maxPrice = Some 5 \<rparr>) start =
     [Call (Contract defaultErc20Abi_abi ''0xUSDC'') ''decimals'' [],
      Call (Contract defaultErc20Abi_abi ''0xDT'') ''decimals'' [],
      EstimateGas (Contract PoolTemplate_abi ''0xPool'') ''swapExactAmountIn''
        [List [Addr ''0xUSDC'', Addr ''0xDT'', Addr ''0xMarket''],
         List [Num (Some 1500000), Num (Some (10 ^ 18)), Num (Some (5 * 10 ^ 18)),
               Num (Some (10 ^ 15))]]
        ''0xTrader'',
      GasPrice,
      Send (Contract PoolTemplate_abi ''0xPool'') ''swapExactAmountIn''
        [List [Addr ''0xUSDC'', Addr ''0xDT'', Addr ''0xMarket''],
         List [Num (Some 1500000), Num (Some (10 ^ 18)), Num (Some (5 * 10 ^ 18)),
               Num (Some (10 ^ 15))]]
        \<lparr> from_address = ''0xTrader'', gas = 21001, gasPrice = ''1000000000'' \<rparr>] \<and>
     all_maxPrice ''swapExactAmountIn'' (5 * 10 ^ 18)
       (submitted
          (swapExactAmountIn mock_pool ''0xTrader'' ''0xPool''
             \<lparr> tokenIn = ''0xUSDC'', tokenOut = ''0xDT'', marketFeeAddress = ''0xMarket'' \<rparr>
             \<lparr> tokenAmountIn = Some (3 / 2), minAmountOut = Some 1, swapMarketFee = 1 / 1000,
                maxPrice = Some 5 \<rparr>) start)"
    using swapExactAmountIn_max_price_bound
      [where this = mock_pool and address = "''0xTrader''" and poolAddress = "''0xPool''"
         and t = "\<lparr> tokenIn = ''0xUSDC'', tokenOut = ''0xDT'', marketFeeAddress = ''0xMarket'' \<rparr>"
         and a = "\<lparr> tokenAmountIn = Some (3 / 2), minAmountOut = Some 1,
                     swapMarketFee = 1 / 1000, maxPrice = Some 5 \<rparr>"
         and s = start and ci = None and wei = "1 / 1000 * 10 ^ 18" and p = 5
         and v = "5 * 10 ^ 18" and bound = "5 * 10 ^ 18" and price = "''1000000000''"]
    by (simp add: mock_pool_simps mock_web3_simps swap_args_def units GASLIMIT_DEFAULT_def
          all_maxPrice_def method_args_def maxPrice_arg_def js_nth_def)
  have unset_est:
    "submitted
       (estSwapExactAmountIn mock_pool ''0xTrader'' ''0xPool''
          \<lparr> tokenIn = ''0xUSDC'', tokenOut = ''0xDT'', marketFeeAddress = ''0xMarket'' \<rparr>
          \<lparr> tokenAmountIn = Some 1500000, minAmountOut = Some 1, swapMarketFee = 1 / 1000,
             maxPrice = None \<rparr> None) start =
     [EstimateGas (Contract PoolTemplate_abi ''0xPool'') ''swapExactAmountIn''
        [List [Addr ''0xUSDC'', Addr ''0xDT'', Addr ''0xMarket''],
         List [Num (Some 1500000), Num (Some 1), Num (Some (2 ^ 256 - 2)),
               Num (Some (10 ^ 15))]]
        ''0xTrader'']"
    using swapExactAmountIn_max_price_bound
      [where this = mock_pool and address = "''0xTrader''" and poolAddress = "''0xPool''"
         and t = "\<lparr> tokenIn = ''0xUSDC'', tokenOut = ''0xDT'', marketFeeAddress = ''0xMarket'' \<rparr>"
         and a = "\<lparr> tokenAmountIn = Some 1500000, minAmountOut = Some 1,
                     swapMarketFee = 1 / 1000, maxPrice = None \<rparr>"
         and s = start and ci = None and wei = "1 / 1000 * 10 ^ 18"
         and bound = "numeric_value MaxUint256" and price = "''1000000000''"]
    by (simp add: mock_pool_simps mock_web3_simps numeric_value_MaxUint256 swap_args_def
          own_contract_def)
  have set_est:
    "submitted
       (estSwapExactAmountIn mock_pool ''0xTrader'' ''0xPool''
          \<lparr> tokenIn = ''0xUSDC'', tokenOut = ''0xDT'', marketFeeAddress = ''0xMarket'' \<rparr>
          \<lparr> tokenAmountIn = Some 1500000, minAmountOut = Some 1, swapMarketFee = 1 / 1000,
             maxPrice = Some 5 \<rparr> None) start =
     [EstimateGas (Contract PoolTemplate_abi ''0xPool'') ''swapExactAmountIn''
        [List [Addr ''0xUSDC'', Addr ''0xDT'', Addr ''0xMarket''],
         List [Num (Some 1500000), Num (Some 1), Num (Some (5 * 10 ^ 18)),
               Num (Some (10 ^ 15))]]
        ''0xTrader'']"
    using swapExactAmountIn_max_price_bound
      [where this = mock_pool and address = "''0xTrader''" and poolAddress = "''0xPool''"
         and t = "\<lparr> tokenIn = ''0xUSDC'', tokenOut = ''0xDT'', marketFeeAddress = ''0xMarket'' \<rparr>"
         and a = "\<lparr> tokenAmountIn = Some 1500000, minAmountOut = Some 1,
                     swapMarketFee = 1 / 1000, maxPrice = Some 5 \<rparr>"
         and s = start and ci = None and wei = "1 / 1000 * 10 ^ 18" and p = 5
         and v = "5 * 10 ^ 18" and bound = "5 * 10 ^ 18" and price = "''1000000000''"]
    by (simp add: mock_pool_simps mock_web3_simps swap_args_def own_contract_def)
  from unset_swap set_swap unset_est set_est show ?thesis by blast
qed

text \<open>
  Claim C9. The string \<open>MaxUint256\<close> denotes \<open>2 ^ 256 - 2\<close>, one less than the largest
  256-bit unsigned number \<open>2 ^ 256 - 1\<close>, and it is this number that \<open>swapExactAmountIn\<close>,
  \<open>swapExactAmountOut\<close> and their two estimators put in every gas estimation and every
  transaction they submit when the max-price bound is unset.
\<close>

theorem MaxUint256_is_two_below_2_pow_256:
  "numeric_value MaxUint256 = 2 ^ 256 - 2 \<and>
   numeric_value MaxUint256 + 1 = 2 ^ 256 - 1 \<and>
   (AmountsInMaxFee.maxPrice a = None \<longrightarrow>
      all_maxPrice ''swapExactAmountIn'' (2 ^ 256 - 2)
        (submitted (swapExactAmountIn this address poolAddress t a) s) \<and>
      all_maxPrice ''swapExactAmountIn'' (2 ^ 256 - 2)
        (submitted (estSwapExactAmountIn this address poolAddress t a ci) s)) \<and>
   (maxPriceOut b = None \<longrightarrow>
      all_maxPrice ''swapExactAmountOut'' (2 ^ 256 - 2)
        (submitted (swapExactAmountOut this address poolAddress t b) s) \<and>
      all_maxPrice ''swapExactAmountOut'' (2 ^ 256 - 2)
        (submitted (estSwapExactAmountOut this address poolAddress t b ci) s))"
proof -
  have v: "numeric_value MaxUint256 = 2 ^ 256 - 2"
    by (rule numeric_value_MaxUint256)
  have "numeric_value MaxUint256 + 1 = 2 ^ 256 - 1"
    by (simp add: v)
  moreover have
    "all_maxPrice ''swapExactAmountIn'' (2 ^ 256 - 2)
        (submitted (swapExactAmountIn this address poolAddress t a) s) \<and>
     all_maxPrice ''swapExactAmountIn'' (2 ^ 256 - 2)
        (submitted (estSwapExactAmountIn this address poolAddress t a ci) s)"
    if "AmountsInMaxFee.maxPrice a = None"
    using swapExactAmountIn_unset [OF that] unfolding v by blast
  moreover have
    "all_maxPrice ''swapExactAmountOut'' (2 ^ 256 - 2)
        (submitted (swapExactAmountOut this address poolAddress t b) s) \<and>
     all_maxPrice ''swapExactAmountOut'' (2 ^ 256 - 2)
        (submitted (estSwapExactAmountOut this address poolAddress t b ci) s)"
    if "maxPriceOut b = None"
    using swapExactAmountOut_unset [OF that] unfolding v by blast
  ultimately show ?thesis
    using v by blast
qed

theorem MaxUint256_is_two_below_2_pow_256_witness:
  "numeric_value MaxUint256 = 2 ^ 256 - 2 \<and>
   all_maxPrice ''swapExactAmountIn'' (2 ^ 256 - 2)
     (submitted
        (swapExactAmountIn mock_pool ''0xTrader'' ''0xPool''
           \<lparr> tokenIn = ''0xUSDC'', tokenOut = ''0xDT'', marketFeeAddress = ''0xMarket'' \<rparr>
           \<lparr> tokenAmountIn = Some (3 / 2), minAmountOut = Some 1, swapMarketFee = 1 / 1000,
              maxPrice = None \<rparr>) start) \<and>
   all_maxPrice ''swapExactAmountOut'' (2 ^ 256 - 2)
     (submitted
        (swapExactAmountOut mock_pool ''0xTrader'' ''0xPool''
           \<lparr> tokenIn = ''0xUSDC'', tokenOut = ''0xDT'', marketFeeAddress = ''0xMarket'' \<rparr>
           \<lparr> maxAmountIn = Some (3 / 2), tokenAmountOut = Some 1, swapMarketFeeOut = 1 / 1000,
              maxPriceOut = None \<rparr>) start) \<and>
   all_maxPrice ''swapExactAmountOut'' (2 ^ 256 - 2)
     (submitted
        (estSwapExactAmountOut mock_pool ''0xTrader'' ''0xPool''
           \<lparr> tokenIn = ''0xUSDC'', tokenOut = ''0xDT'', marketFeeAddress = ''0xMarket'' \<rparr>
           \<lparr> maxAmountIn = Some 1500000, tokenAmountOut = Some 1, swapMarketFeeOut = 1 / 1000,
              maxPriceOut = None \<rparr> None) start)"
proof -
  have swaps:
    "numeric_value MaxUint256 = 2 ^ 256 - 2 \<and>
     all_maxPrice ''swapExactAmountIn'' (2 ^ 256 - 2)
       (submitted
          (swapExactAmountIn mock_pool ''0xTrader'' ''0xPool''
             \<lparr> tokenIn = ''0xUSDC'', tokenOut = ''0xDT'', marketFeeAddress = ''0xMarket'' \<rparr>
             \<lparr> tokenAmountIn = Some (3 / 2), minAmountOut = Some 1, swapMarketFee = 1 / 1000,
                maxPrice = None \<rparr>) start) \<and>
     all_maxPrice ''swapExactAmountOut'' (2 ^ 256 - 2)
       (submitted
          (swapExactAmountOut mock_pool ''0xTrader'' ''0xPool''
             \<lparr> tokenIn = ''0xUSDC'', tokenOut = ''0xDT'', marketFeeAddress = ''0xMarket'' \<rparr>
             \<lparr> maxAmountIn = Some (3 / 2), tokenAmountOut = Some 1, swapMarketFeeOut = 1 / 1000,
                maxPriceOut = None \<rparr>) start)"
    using MaxUint256_is_two_below_2_pow_256
      [where this = mock_pool and address = "''0xTrader''" and poolAddress = "''0xPool''"
         and t = "\<lparr> tokenIn = ''0xUSDC'', tokenOut = ''0xDT'', marketFeeAddress = ''0xMarket'' \<rparr>"
         and a = "\<lparr> tokenAmountIn = Some (3 / 2), minAmountOut = Some 1,
                     swapMarketFee = 1 / 1000, maxPrice = None \<rparr>"
         and b = "\<lparr> maxAmountIn = Some (3 / 2), tokenAmountOut = Some 1,
                     swapMarketFeeOut = 1 / 1000, maxPriceOut = None \<rparr>"
         and s = start and ci = None]
    by simp
  have estimator:
    "all_maxPrice ''swapExactAmountOut'' (2 ^ 256 - 2)
       (submitted
          (estSwapExactAmountOut mock_pool ''0xTrader'' ''0xPool''
             \<lparr> tokenIn = ''0xUSDC'', tokenOut = ''0xDT'', marketFeeAddress = ''0xMarket'' \<rparr>
             \<lparr> maxAmountIn = Some 1500000, tokenAmountOut = Some 1, swapMarketFeeOut = 1 / 1000,
                maxPriceOut = None \<rparr> None) start)"
    using MaxUint256_is_two_below_2_pow_256
      [where this = mock_pool and address = "''0xTrader''" and poolAddress = "''0xPool''"
         and t = "\<lparr> tokenIn = ''0xUSDC'', tokenOut = ''0xDT'', marketFeeAddress = ''0xMarket'' \<rparr>"
         and a = "\<lparr> tokenAmountIn = Some (3 / 2), minAmountOut = Some 1,
                     swapMarketFee = 1 / 1000, maxPrice = None \<rparr>"
         and b = "\<lparr> maxAmountIn = Some 1500000, tokenAmountOut = Some 1,
                     swapMarketFeeOut = 1 / 1000, maxPriceOut = None \<rparr>"
         and s = start and ci = None]
    by simp
  from swaps estimator show ?thesis by blast
qed

subsection \<open>Dual-sided liquidity\<close>

lemma join_exit_amounts:
  assumes "call_addresses (web3 this) (Contract (poolAbi this) poolAddress) ''getFinalTokens'' =
             Inr (t0 # t1 # ts)"
  shows "all_amounts ''joinPool''
           [Some (base_units (decimals_or_18 (web3 this) t0) a0),
            Some (base_units (decimals_or_18 (web3 this) t1) a1)]
           (submitted (joinPool this address poolAddress poolAmount (a0 # a1 # rest)) s)"
    and "all_amounts ''exitPool''
           [Some (base_units (decimals_or_18 (web3 this) t0) a0),
            Some (base_units (decimals_or_18 (web3 this) t1) a1)]
           (submitted (exitPool this address poolAddress poolAmount (a0 # a1 # rest)) s)"
  using assms
  by (simp_all add: joinPool_def exitPool_def estJoinPool_def estExitPool_def getFinalTokens_def
        amounts_loop_two io_defs Let_def observe_defs
      split: sum.splits prod.splits)

lemma join_exit_requests:
  assumes "call_addresses (web3 this) (Contract (poolAbi this) poolAddress) ''getFinalTokens'' =
             Inr (t0 # t1 # ts)"
    and "toWei (web3 this) poolAmount = Inr wei"
    and "getFairGasPrice (web3 this) = Inr price"
  shows "map (method_args ''joinPool'')
           (submitted (joinPool this address poolAddress poolAmount (a0 # a1 # rest)) s) =
         [None, None, None,
          Some [Num (Some wei),
                List [Num (Some (base_units (decimals_or_18 (web3 this) t0) a0)),
                      Num (Some (base_units (decimals_or_18 (web3 this) t1) a1))]],
          None,
          Some [Num (Some wei),
                List [Num (Some (base_units (decimals_or_18 (web3 this) t0) a0)),
                      Num (Some (base_units (decimals_or_18 (web3 this) t1) a1))]]]"
    and "map (method_args ''exitPool'')
           (submitted (exitPool this address poolAddress poolAmount (a0 # a1 # rest)) s) =
         [None, None, None,
          Some [Num (Some wei),
                List [Num (Some (base_units (decimals_or_18 (web3 this) t0) a0)),
                      Num (Some (base_units (decimals_or_18 (web3 this) t1) a1))]],
          None,
          Some [Num (Some wei),
                List [Num (Some (base_units (decimals_or_18 (web3 this) t0) a0)),
                      Num (Some (base_units (decimals_or_18 (web3 this) t1) a1))]]]"
  using assms
  by (simp_all add: joinPool_def exitPool_def estJoinPool_def estExitPool_def getFinalTokens_def
        amounts_loop_two io_defs Let_def submitted_def method_args_def
      split: sum.splits prod.splits)

lemma base_units_exact: "a * 10 ^ d \<in> \<int> \<Longrightarrow> base_units d a = a * 10 ^ d"
  by (auto simp: base_units_def elim: Ints_cases)

text \<open>
  Claim C7, with \<open>amountToUnits\<close> as the spec describes it. When \<open>getFinalTokens\<close> returns
  a list that begins with the tokens \<open>t0\<close> and \<open>t1\<close>, and the caller's amounts begin with
  \<open>a0\<close> and \<open>a1\<close>, every gas estimation and every transaction that \<open>joinPool\<close> and
  \<open>exitPool\<close> submit carries the two-element array whose first element is \<open>a0\<close> in the base
  units of \<open>t0\<close> and whose second is \<open>a1\<close> in the base units of \<open>t1\<close>; later tokens and
  amounts are not used. On a working connection both are submitted, with that array. An
  amount whose base-unit image is a whole number is sent as exactly that image.
\<close>

theorem join_exit_convert_by_position:
  "(call_addresses (web3 this) (Contract (poolAbi this) poolAddress) ''getFinalTokens'' =
      Inr (t0 # t1 # ts) \<longrightarrow>
    all_amounts ''joinPool''
      [Some (base_units (decimals_or_18 (web3 this) t0) a0),
       Some (base_units (decimals_or_18 (web3 this) t1) a1)]
      (submitted (joinPool this address poolAddress poolAmount (a0 # a1 # rest)) s) \<and>
    all_amounts ''exitPool''
      [Some (base_units (decimals_or_18 (web3 this) t0) a0),
       Some (base_units (decimals_or_18 (web3 this) t1) a1)]
      (submitted (exitPool this address poolAddress poolAmount (a0 # a1 # rest)) s)) \<and>
   (call_addresses (web3 this) (Contract (poolAbi this) poolAddress) ''getFinalTokens'' =
      Inr (t0 # t1 # ts) \<and>
    toWei (web3 this) poolAmount = Inr wei \<and> getFairGasPrice (web3 this) = Inr price \<longrightarrow>
    map (map_option (\<lambda>args. js_nth args 1) \<circ> method_args ''joinPool'')
      (submitted (joinPool this address poolAddress poolAmount (a0 # a1 # rest)) s) =
    [None, None, None,
     Some (Some (List [Num (Some (base_units (decimals_or_18 (web3 this) t0) a0)),
                       Num (Some (base_units (decimals_or_18 (web3 this) t1) a1))])),
     None,
     Some (Some (List [Num (Some (base_units (decimals_or_18 (web3 this) t0) a0)),
                       Num (Some (base_units (decimals_or_18 (web3 this) t1) a1))]))] \<and>
    map (map_option (\<lambda>args. js_nth args 1) \<circ> method_args ''exitPool'')
      (submitted (exitPool this address poolAddress poolAmount (a0 # a1 # rest)) s) =
    [None, None, None,
     Some (Some (List [Num (Some (base_units (decimals_or_18 (web3 this) t0) a0)),
                       Num (Some (base_units (decimals_or_18 (web3 this) t1) a1))])),
     None,
     Some (Some (List [Num (Some (base_units (decimals_or_18 (web3 this) t0) a0)),
                       Num (Some (base_units (decimals_or_18 (web3 this) t1) a1))]))]) \<and>
   (a0 * 10 ^ decimals_or_18 (web3 this) t0 \<in> \<int> \<longrightarrow>
    base_units (decimals_or_18 (web3 this) t0) a0 = a0 * 10 ^ decimals_or_18 (web3 this) t0) \<and>
   (a1 * 10 ^ decimals_or_18 (web3 this) t1 \<in> \<int> \<longrightarrow>
    base_units (decimals_or_18 (web3 this) t1) a1 = a1 * 10 ^ decimals_or_18 (web3 this) t1)"
proof -
  have requests:
    "map (map_option (\<lambda>args. js_nth args 1) \<circ> method_args ''joinPool'')
      (submitted (joinPool this address poolAddress poolAmount (a0 # a1 # rest)) s) =
    [None, None, None,
     Some (Some (List [Num (Some (base_units (decimals_or_18 (web3 this) t0) a0)),
                       Num (Some (base_units (decimals_or_18 (web3 this) t1) a1))])),
     None,
     Some (Some (List [Num (Some (base_units (decimals_or_18 (web3 this) t0) a0)),
                       Num (Some (base_units (decimals_or_18 (web3 this) t1) a1))]))] \<and>
    map (map_option (\<lambda>args. js_nth args 1) \<circ> method_args ''exitPool'')
      (submitted (exitPool this address poolAddress poolAmount (a0 # a1 # rest)) s) =
    [None, None, None,
     Some (Some (List [Num (Some (base_units (decimals_or_18 (web3 this) t0) a0)),
                       Num (Some (base_units (decimals_or_18 (web3 this) t1) a1))])),
     None,
     Some (Some (List [Num (Some (base_units (decimals_or_18 (web3 this) t0) a0)),
                       Num (Some (base_units (decimals_or_18 (web3 this) t1) a1))]))]"
    if "call_addresses (web3 this) (Contract (poolAbi this) poolAddress) ''getFinalTokens'' =
          Inr (t0 # t1 # ts)"
      and "toWei (web3 this) poolAmount = Inr wei" and "getFairGasPrice (web3 this) = Inr price"
    using join_exit_requests [OF that, of address a0 a1 rest s]
    by (simp flip: map_map add: js_nth_def)
  show ?thesis
    using requests by (simp add: join_exit_amounts base_units_exact)
qed

theorem join_exit_convert_by_position_witness:
  "map (map_option (\<lambda>args. js_nth args 1) \<circ> method_args ''joinPool'')
     (submitted (joinPool mock_pool ''0xLP'' ''0xPool'' 1 [3 / 2, 5 / 2]) start) =
   [None, None, None,
    Some (Some (List [Num (Some (3 / 2 * 10 ^ 18)), Num (Some 2500000)])),
    None,
    Some (Some (List [Num (Some (3 / 2 * 10 ^ 18)), Num (Some 2500000)]))] \<and>
   map (map_option (\<lambda>args. js_nth args 1) \<circ> method_args ''exitPool'')
     (submitted (exitPool mock_pool ''0xLP'' ''0xPool'' 1 [3 / 2, 5 / 2]) start) =
   [None, None, None,
    Some (Some (List [Num (Some (3 / 2 * 10 ^ 18)), Num (Some 2500000)])),
    None,
    Some (Some (List [Num (Some (3 / 2 * 10 ^ 18)), Num (Some 2500000)]))] \<and>
   all_amounts ''joinPool'' [Some (3 / 2 * 10 ^ 18), Some 2500000]
     (submitted (joinPool mock_pool ''0xLP'' ''0xPool'' 1 [3 / 2, 5 / 2]) start) \<and>
   all_amounts ''exitPool'' [Some (3 / 2 * 10 ^ 18), Some 2500000]
     (submitted (exitPool mock_pool ''0xLP'' ''0xPool'' 1 [3 / 2, 5 / 2]) start)"
proof -
  have whole0: "(3 / 2 :: rat) * 10 ^ 18 \<in> \<int>"
  proof -
    have "(3 / 2 :: rat) * 10 ^ 18 = of_int 1500000000000000000"
      by simp
    then show ?thesis
      by (simp only: Ints_of_int)
  qed
  have whole1: "(5 / 2 :: rat) * 10 ^ 6 \<in> \<int>"
  proof -
    have "(5 / 2 :: rat) * 10 ^ 6 = of_int 2500000"
      by simp
    then show ?thesis
      by (simp only: Ints_of_int)
  qed
  have units1: "(5 / 2 :: rat) * 10 ^ 6 = 2500000"
    by simp
  show ?thesis
    using join_exit_convert_by_position
      [where this = mock_pool and poolAddress = "''0xPool''" and ?t0.0 = "''0xDT''"
         and ?t1.0 = "''0xUSDC''" and ts = "[]" and ?a0.0 = "3 / 2" and ?a1.0 = "5 / 2"
         and rest = "[]" and address = "''0xLP''" and poolAmount = 1 and s = start
         and wei = "1 * 10 ^ 18" and price = "''1000000000''"]
      whole0 whole1
    by (simp add: mock_pool_simps mock_web3_simps units1 base_units_def)
qed

subsection \<open>Conversion round trip\<close>

text \<open>
  Claim C8, with \<open>amountToUnits\<close> and \<open>unitsToAmount\<close> as the spec describes them. For
  every token and every amount whose base-unit image (the amount times ten to the token's
  decimal count, 18 when the count cannot be read) is a whole number, \<open>amountToUnits\<close>
  returns that image and \<open>unitsToAmount\<close> of that image returns the amount itself.
\<close>

theorem units_round_trip:
  assumes "a * 10 ^ decimals_or_18 w t \<in> \<int>"
  shows "fst (amountToUnits w (Some t) (Some a) s) = Inr (Some (a * 10 ^ decimals_or_18 w t)) \<and>
         fst (unitsToAmount w (Some t) (a * 10 ^ decimals_or_18 w t) s') = Inr a"
  using assms by (simp add: amountToUnits_run unitsToAmount_run base_units_exact)

theorem units_round_trip_witness:
  "(3 / 2 :: rat) * 10 ^ decimals_or_18 mock_web3 ''0xUSDC'' \<in> \<int> \<and>
   fst (amountToUnits mock_web3 (Some ''0xUSDC'') (Some (3 / 2)) start) = Inr (Some 1500000) \<and>
   fst (unitsToAmount mock_web3 (Some ''0xUSDC'') 1500000 start) = Inr (3 / 2)"
proof -
  have image: "(3 / 2 :: rat) * 10 ^ decimals_or_18 mock_web3 ''0xUSDC'' = of_int 1500000"
    by (simp add: mock_web3_simps)
  have whole: "(3 / 2 :: rat) * 10 ^ decimals_or_18 mock_web3 ''0xUSDC'' \<in> \<int>"
    by (simp only: image Ints_of_int)
  from whole units_round_trip [OF whole, of start start] show ?thesis
    by (simp add: mock_web3_simps)
qed

end
